theory Spec2Isabelle
  imports Complex_Main "HOL-Library.Word"
begin

section \<open>Strings\<close>

text \<open>
  JavaScript strings are modelled as \<^typ>\<open>string\<close>. \<open>s.startsWith(p)\<close> and
  \<open>s.includes(p)\<close> are the usual prefix and contiguous-substring tests; both accept the
  empty pattern.
\<close>

fun startsWith :: "string \<Rightarrow> string \<Rightarrow> bool" where
  "startsWith s [] = True"
| "startsWith [] (p # ps) = False"
| "startsWith (c # cs) (p # ps) = (c = p \<and> startsWith cs ps)"

fun str_includes :: "string \<Rightarrow> string \<Rightarrow> bool" where
  "str_includes [] p = (p = [])"
| "str_includes (c # cs) p = (startsWith (c # cs) p \<or> str_includes cs p)"

section \<open>Account page: balances and the IBC-token page window\<close>

text \<open>A \<open>Coin\<close> of the chain client: a denom and a raw amount, both strings.\<close>

record Coin =
  denom :: string
  amount :: string

text \<open>
  The \<open>useState\<close> cells of \<open>AccountDetail\<close> that the page window reads:
  \<open>balances\<close>, \<open>itemsPerPage\<close> (initially 10) and \<open>currentPage\<close> (initially 1).
  Page numbers are JavaScript numbers that only ever hold integers here.
\<close>

record pagination =
  balances :: "Coin list"
  itemsPerPage :: nat
  currentPage :: int

definition ibcTokens :: "pagination \<Rightarrow> Coin list" where
  "ibcTokens st = filter (\<lambda>balance. str_includes (denom balance) ''/'') (balances st)"

text \<open>
  \<open>Math.ceil(ibcTokens.length / itemsPerPage)\<close>. The page size comes from the presets
  5, 10 and 20 of the \<open>select\<close> element, so the divisor is positive.
\<close>

definition totalPages :: "pagination \<Rightarrow> nat" where
  "totalPages st =
     (let n = length (ibcTokens st); k = itemsPerPage st
      in if n mod k = 0 then n div k else n div k + 1)"

definition startIndex :: "pagination \<Rightarrow> int" where
  "startIndex st = (currentPage st - 1) * int (itemsPerPage st)"

definition endIndex :: "pagination \<Rightarrow> int" where
  "endIndex st = startIndex st + int (itemsPerPage st)"

text \<open>\<open>Array.prototype.slice\<close>: a negative index counts from the end of the array.\<close>

definition js_slice :: "'a list \<Rightarrow> int \<Rightarrow> int \<Rightarrow> 'a list" where
  "js_slice xs start stop =
     (let len = int (length xs);
          k = (if start < 0 then max (len + start) 0 else min start len);
          fin = (if stop < 0 then max (len + stop) 0 else min stop len)
      in take (nat (fin - k)) (drop (nat k) xs))"

definition paginatedIbcTokens :: "pagination \<Rightarrow> Coin list" where
  "paginatedIbcTokens st = js_slice (ibcTokens st) (startIndex st) (endIndex st)"

definition handlePageChange :: "int \<Rightarrow> pagination \<Rightarrow> pagination" where
  "handlePageChange page st =
     st\<lparr>currentPage := max 1 (min page (int (totalPages st)))\<rparr>"

text \<open>
  The effect on \<open>[ibcTokens.length, totalPages, currentPage]\<close>: back to page 1 when
  the current page lies beyond the last one and there is at least one page.
\<close>

definition effectIbcTokens :: "pagination \<Rightarrow> pagination" where
  "effectIbcTokens st =
     (if currentPage st > int (totalPages st) \<and> totalPages st > 0
      then st\<lparr>currentPage := 1\<rparr> else st)"

text \<open>
  \<open>handleItemsPerPageChange\<close> stores the new page size. When the value differs from the
  old one the effect on \<open>[itemsPerPage]\<close> runs and sets the page to 1, and the effect
  above runs on the result.
\<close>

definition handleItemsPerPageChange :: "nat \<Rightarrow> pagination \<Rightarrow> pagination" where
  "handleItemsPerPageChange newItemsPerPage st =
     (if newItemsPerPage = itemsPerPage st then st
      else effectIbcTokens (st\<lparr>itemsPerPage := newItemsPerPage, currentPage := 1\<rparr>))"

text \<open>A new balance list arrives (\<open>setBalances\<close>); the effect on the token count runs.\<close>

definition setBalances :: "Coin list \<Rightarrow> pagination \<Rightarrow> pagination" where
  "setBalances bs st = effectIbcTokens (st\<lparr>balances := bs\<rparr>)"

text \<open>
  The page window is in range when the page is at least 1 and, if there is any page at
  all, at most the last page.
\<close>

definition page_ok :: "pagination \<Rightarrow> bool" where
  "page_ok st =
     (1 \<le> currentPage st \<and> (0 < totalPages st \<longrightarrow> currentPage st \<le> int (totalPages st)))"

text \<open>An account with 23 IBC tokens, shown ten per page, on page 3.\<close>

definition ibc23 :: pagination where
  "ibc23 = \<lparr>balances = replicate 23 \<lparr>denom = ''ibc/A'', amount = ''1''\<rparr>,
            itemsPerPage = 10, currentPage = 3\<rparr>"

section \<open>Metadata service and indexer records\<close>

text \<open>
  \<open>toLowerCase\<close> on the ASCII letters: the codes 65 to 90 (\<open>A\<close> to \<open>Z\<close>) move up by
  32. Symbols and denoms of the chain are ASCII; other characters are left as they are.
\<close>

definition toLowerCaseChar :: "char \<Rightarrow> char" where
  "toLowerCaseChar c =
     (let n = (of_char c :: nat) in if 65 \<le> n \<and> n \<le> 90 then char_of (n + 32) else c)"

definition toLowerCase :: "string \<Rightarrow> string" where
  "toLowerCase s = map toLowerCaseChar s"

text \<open>
  \<open>AssetInfo\<close> of the metadata client. The three precision fields come from a JSON
  response, and the code tests each of them for being undefined, so all three are
  optional here. Exponents are JavaScript numbers holding integers.
\<close>

record AssetInfo =
  symbol :: string
  name :: string
  decimals :: "int option"
  atomicResolution :: "int option"
  denomExponent :: "int option"

datatype position_side = LONG | SHORT

record AssetPosition =
  ap_symbol :: string
  side :: position_side
  ap_size :: "string option"
  assetId :: string
  subaccountNumber :: "nat option"

text \<open>The operator \<open>a ?? b\<close>: \<open>b\<close> when \<open>a\<close> is undefined or null.\<close>

definition nullish :: "'a option \<Rightarrow> 'a option \<Rightarrow> 'a option" where
  "nullish a b = (case a of Some x \<Rightarrow> Some x | None \<Rightarrow> b)"

text \<open>
  The expression \<open>info.atomicResolution ?? info.denomExponent ?? info.decimals\<close>, which
  the page evaluates in three places.
\<close>

definition exponentOf :: "AssetInfo \<Rightarrow> int option" where
  "exponentOf info =
     nullish (atomicResolution info) (nullish (denomExponent info) (decimals info))"

section \<open>Account page: the precision maps\<close>

text \<open>
  A JavaScript \<open>Map\<close> keeps its keys in insertion order, and \<open>set\<close> on a key that is
  present replaces the value in place. It is an association list with distinct keys;
  \<open>get\<close> is \<^const>\<open>map_of\<close>.
\<close>

fun map_set :: "'k \<Rightarrow> 'v \<Rightarrow> ('k \<times> 'v) list \<Rightarrow> ('k \<times> 'v) list" where
  "map_set k v [] = [(k, v)]"
| "map_set k v ((k', v') # rest) =
     (if k' = k then (k, v) # rest else (k', v') # map_set k v rest)"

text \<open>The cells \<open>assetInfoMap\<close> and \<open>denomExponentMap\<close> of \<open>AccountDetail\<close>.\<close>

record precision =
  assetInfoMap :: "(string \<times> AssetInfo) list"
  denomExponentMap :: "(string \<times> int) list"

text \<open>
  The \<open>forEach\<close> over \<open>Object.entries(assetInfo)\<close>: every entry goes into \<open>infoMap\<close>,
  and its exponent goes into \<open>exponentMap\<close> when it is defined and positive.
\<close>

fun ingestEntries :: "(string \<times> AssetInfo) list \<Rightarrow> precision \<Rightarrow> precision" where
  "ingestEntries [] acc = acc"
| "ingestEntries ((key, info) # rest) acc =
     (let acc1 = acc\<lparr>assetInfoMap := map_set key info (assetInfoMap acc)\<rparr>
      in ingestEntries rest
           (case exponentOf info of
              None \<Rightarrow> acc1
            | Some exponent \<Rightarrow>
                if 0 < exponent
                then acc1\<lparr>denomExponentMap := map_set key exponent (denomExponentMap acc1)\<rparr>
                else acc1))"

text \<open>Both maps start empty and are stored together once the loop is over.\<close>

definition ingestAssetInfo :: "(string \<times> AssetInfo) list \<Rightarrow> precision" where
  "ingestAssetInfo assetInfo =
     ingestEntries assetInfo \<lparr>assetInfoMap = [], denomExponentMap = []\<rparr>"

text \<open>The test of the fuzzy loop in \<open>formatBalance\<close>, on the lowercased strings.\<close>

definition fuzzyMatch :: "string \<Rightarrow> string \<Rightarrow> bool" where
  "fuzzyMatch d key =
     (let denomLower = toLowerCase d; symbolLower = toLowerCase key
      in denomLower = symbolLower \<or> str_includes denomLower symbolLower \<or>
         str_includes symbolLower denomLower)"

text \<open>
  The \<open>for\<close> loop over \<open>assetInfoMap.entries()\<close>. A matching entry overwrites the
  variable \<open>exponent\<close>; the loop stores the value under the denom and breaks only when
  the value is defined and positive, and goes on to the next entry otherwise.
\<close>

fun fuzzyLoop ::
  "string \<Rightarrow> (string \<times> AssetInfo) list \<Rightarrow> int option \<Rightarrow> (string \<times> int) list \<Rightarrow>
     int option \<times> (string \<times> int) list" where
  "fuzzyLoop d [] exponent m = (exponent, m)"
| "fuzzyLoop d ((key, info) # rest) exponent m =
     (if fuzzyMatch d key
      then (case exponentOf info of
              None \<Rightarrow> fuzzyLoop d rest None m
            | Some e \<Rightarrow> if 0 < e then (Some e, map_set d e m) else fuzzyLoop d rest (Some e) m)
      else fuzzyLoop d rest exponent m)"

text \<open>
  The first part of \<open>formatBalance\<close>: the exact lookup of the denom, then the fuzzy
  loop. The loop writes into \<open>denomExponentMap\<close>, so the state is returned.
\<close>

definition balanceExponent :: "precision \<Rightarrow> Coin \<Rightarrow> int option \<times> precision" where
  "balanceExponent st balance =
     (case map_of (denomExponentMap st) (denom balance) of
        Some e \<Rightarrow> (Some e, st)
      | None \<Rightarrow>
          (case fuzzyLoop (denom balance) (assetInfoMap st) None (denomExponentMap st) of
             (exponent, m) \<Rightarrow> (exponent, st\<lparr>denomExponentMap := m\<rparr>)))"

text \<open>
  The exponent of \<open>formatSubaccountAsset\<close>: the entry of \<open>denomExponentMap\<close>, else the
  precedence expression on the entry of \<open>assetInfoMap\<close>, when there is one.
\<close>

definition positionExponent :: "precision \<Rightarrow> string \<Rightarrow> int option" where
  "positionExponent st key =
     (case map_of (denomExponentMap st) key of
        Some e \<Rightarrow> Some e
      | None \<Rightarrow>
          (case map_of (assetInfoMap st) key of
             Some info \<Rightarrow> exponentOf info
           | None \<Rightarrow> None))"

text \<open>
  The module \<open>@/utils/cosmos\<close> is imported by the page and its three functions are
  parameters here. \<open>getConvertedAmount\<close> returns the pair of \<open>converted\<close> and \<open>base\<close>.
\<close>

record cosmos_utils =
  getConvertedAmount :: "string \<Rightarrow> string \<Rightarrow> int option \<Rightarrow> string \<times> string"
  formatAmount :: "string \<Rightarrow> string"
  formatDenom :: "string \<Rightarrow> string"

record formatted_balance =
  fb_amount :: string
  convertedAmount :: string
  formattedAmount :: string
  rawFormattedAmount :: string
  fb_denom :: string
  baseDenom :: string
  formattedDenom :: string
  isIBC :: bool
  isConverted :: bool
  fb_exponent :: "int option"

definition formatBalance ::
  "cosmos_utils \<Rightarrow> precision \<Rightarrow> Coin \<Rightarrow> formatted_balance \<times> precision" where
  "formatBalance U st balance =
     (case balanceExponent st balance of
        (exponent, st') \<Rightarrow>
          (case getConvertedAmount U (amount balance) (denom balance) exponent of
             (converted, base) \<Rightarrow>
               (\<lparr>fb_amount = amount balance,
                 convertedAmount = converted,
                 formattedAmount = formatAmount U converted,
                 rawFormattedAmount = formatAmount U (amount balance),
                 fb_denom = denom balance,
                 baseDenom = base,
                 formattedDenom = formatDenom U (denom balance),
                 isIBC = startsWith (denom balance) ''ibc/'',
                 isConverted =
                   (exponent \<noteq> None \<or> startsWith (denom balance) ''u'' \<or>
                    startsWith (denom balance) ''a''),
                 fb_exponent = exponent\<rparr>, st')))"

record formatted_asset =
  sa_symbol :: string
  sa_size :: string
  convertedSize :: string
  formattedSize :: string
  sa_side :: position_side
  assetInfo :: "AssetInfo option"
  sa_exponent :: "int option"

text \<open>\<open>position.size || '0'\<close>: a missing or empty size reads as \<open>'0'\<close>.\<close>

definition formatSubaccountAsset ::
  "cosmos_utils \<Rightarrow> precision \<Rightarrow> AssetPosition \<Rightarrow> formatted_asset" where
  "formatSubaccountAsset U st position =
     (let key = ap_symbol position;
          size0 = (case ap_size position of
                     None \<Rightarrow> ''0''
                   | Some s \<Rightarrow> if s = [] then ''0'' else s);
          exponent = positionExponent st key;
          converted = fst (getConvertedAmount U size0 key exponent)
      in \<lparr>sa_symbol = key,
           sa_size = size0,
           convertedSize = converted,
           formattedSize = formatAmount U converted,
           sa_side = side position,
           assetInfo = map_of (assetInfoMap st) key,
           sa_exponent = exponent\<rparr>)"

text \<open>Every exponent stored in a map is positive.\<close>

definition positive_exponents :: "(string \<times> int) list \<Rightarrow> bool" where
  "positive_exponents m = list_all (\<lambda>(k, e). 0 < e) m"

text \<open>An entry that the fuzzy loop accepts: its exponent is defined and positive.\<close>

definition usableExponent :: "AssetInfo \<Rightarrow> bool" where
  "usableExponent info = (case exponentOf info of None \<Rightarrow> False | Some e \<Rightarrow> 0 < e)"

text \<open>Sample metadata records and a sample instance of the utility module.\<close>

definition usd_info :: AssetInfo where
  "usd_info = \<lparr>symbol = ''USD'', name = ''US Dollar'', decimals = Some 0,
               atomicResolution = None, denomExponent = None\<rparr>"

definition usdc_info :: AssetInfo where
  "usdc_info = \<lparr>symbol = ''USDC'', name = ''USD Coin'', decimals = Some 6,
                atomicResolution = None, denomExponent = None\<rparr>"

definition usdc_atomic :: AssetInfo where
  "usdc_atomic = \<lparr>symbol = ''USDC'', name = ''USD Coin'', decimals = Some 6,
                  atomicResolution = Some (- 6), denomExponent = Some 18\<rparr>"

definition plain_utils :: cosmos_utils where
  "plain_utils = \<lparr>getConvertedAmount = (\<lambda>a d e. (a, d)), formatAmount = (\<lambda>a. a),
                  formatDenom = (\<lambda>d. d)\<rparr>"

text \<open>
  The tables of the page call \<open>formatBalance\<close> on one balance after the other
  (\<open>nativeTokens.map\<close>, \<open>paginatedIbcTokens.map\<close>); the exponent map that one call has
  written into is the map that the next call, and \<open>formatSubaccountAsset\<close> after them,
  read.
\<close>

fun formatBalances :: "cosmos_utils \<Rightarrow> precision \<Rightarrow> Coin list \<Rightarrow> precision" where
  "formatBalances U st [] = st"
| "formatBalances U st (balance # rest) =
     formatBalances U (snd (formatBalance U st balance)) rest"

text \<open>
  A second sample record, whose symbol contains the symbol \<open>USDC\<close>.
\<close>

definition usdcx_info :: AssetInfo where
  "usdcx_info = \<lparr>symbol = ''USDCX'', name = ''USDC X'', decimals = Some 8,
                 atomicResolution = None, denomExponent = None\<rparr>"

section \<open>Account page: decoding the fetched transactions\<close>

text \<open>A \<open>Uint8Array\<close>.\<close>

type_synonym bytes = "8 word list"

text \<open>
  The fields of a \<open>TxResponse\<close> that the page reads, the protobuf \<open>Any\<close> of a message,
  and a decoded \<open>Tx\<close> whose \<open>body\<close> may be missing (\<open>txData.body?.messages || []\<close>).
\<close>

record TxResponse =
  hash :: bytes
  height :: nat
  tx :: bytes
  result_code :: nat

record Any =
  typeUrl :: string
  any_value :: bytes

record TxBody =
  messages :: "Any list"

record Tx =
  body :: "TxBody option"

text \<open>
  \<open>Tx.decode\<close> and \<open>decodeMsg\<close> belong to the protobuf library and to the encoding
  module; they are parameters, and each either returns or throws.
\<close>

datatype decode_error = DecodeError string

record 'm codec =
  tx_decode :: "bytes \<Rightarrow> decode_error + Tx"
  decodeMsg :: "string \<Rightarrow> bytes \<Rightarrow> decode_error + 'm"

text \<open>The cells \<open>transactions\<close> and \<open>decodedTxs\<close> of \<open>AccountDetail\<close>.\<close>

record 'm tx_state =
  transactions :: "TxResponse list"
  decodedTxs :: "(TxResponse \<times> 'm list) list"

text \<open>The inner loop: a message whose decoding throws is logged and skipped.\<close>

fun decodeMessages :: "'m codec \<Rightarrow> Any list \<Rightarrow> 'm list \<Rightarrow> 'm list" where
  "decodeMessages C [] msgs = msgs"
| "decodeMessages C (message # rest) msgs =
     (case decodeMsg C (typeUrl message) (any_value message) of
        Inr msg \<Rightarrow> decodeMessages C rest (msgs @ [msg])
      | Inl err \<Rightarrow> decodeMessages C rest msgs)"

definition bodyMessages :: "Tx \<Rightarrow> Any list" where
  "bodyMessages txData = (case body txData of None \<Rightarrow> [] | Some b \<Rightarrow> messages b)"

text \<open>The outer loop: a transaction whose envelope does not decode is logged and skipped.\<close>

fun decodeTransactions ::
  "'m codec \<Rightarrow> TxResponse list \<Rightarrow> (TxResponse \<times> 'm list) list \<Rightarrow> (TxResponse \<times> 'm list) list" where
  "decodeTransactions C [] decoded = decoded"
| "decodeTransactions C (t # rest) decoded =
     (case tx_decode C (tx t) of
        Inr txData \<Rightarrow>
          decodeTransactions C rest (decoded @ [(t, decodeMessages C (bodyMessages txData) [])])
      | Inl err \<Rightarrow> decodeTransactions C rest decoded)"

text \<open>The effect on \<open>[transactions]\<close>; it does nothing for an empty list.\<close>

definition effectTransactions :: "'m codec \<Rightarrow> 'm tx_state \<Rightarrow> 'm tx_state" where
  "effectTransactions C st =
     (if length (transactions st) > 0
      then st\<lparr>decodedTxs := decodeTransactions C (transactions st) []\<rparr>
      else st)"

text \<open>What a message and a transaction decode to, when they do.\<close>

definition decodableMsg :: "'m codec \<Rightarrow> Any \<Rightarrow> 'm option" where
  "decodableMsg C message =
     (case decodeMsg C (typeUrl message) (any_value message) of
        Inr msg \<Rightarrow> Some msg | Inl err \<Rightarrow> None)"

definition decodableTx :: "'m codec \<Rightarrow> TxResponse \<Rightarrow> (TxResponse \<times> 'm list) option" where
  "decodableTx C t =
     (case tx_decode C (tx t) of
        Inr txData \<Rightarrow> Some (t, List.map_filter (decodableMsg C) (bodyMessages txData))
      | Inl err \<Rightarrow> None)"

text \<open>
  A sample codec: an empty envelope does not decode, every byte of the others is one
  message, and the message \<open>[0]\<close> does not decode.
\<close>

definition sample_codec :: "bytes codec" where
  "sample_codec =
     \<lparr>tx_decode = (\<lambda>bs. if bs = [] then Inl (DecodeError ''empty'')
                       else Inr \<lparr>body = Some \<lparr>messages = map (\<lambda>b. \<lparr>typeUrl = ''/m'', any_value = [b]\<rparr>) bs\<rparr>\<rparr>),
      decodeMsg = (\<lambda>u v. if v = [0] then Inl (DecodeError ''unknown'') else Inr v)\<rparr>"

definition sample_txs :: "TxResponse list" where
  "sample_txs = [\<lparr>hash = [1], height = 5, tx = [0, 7], result_code = 0\<rparr>,
                 \<lparr>hash = [2], height = 6, tx = [], result_code = 0\<rparr>]"

section \<open>Indexer and metadata clients\<close>

text \<open>
  What a JavaScript call can throw here: the rejection of \<open>fetch\<close>, the rejection of
  \<open>response.text()\<close> or \<open>response.json()\<close>, an \<open>Error\<close> raised by the client itself,
  and the \<open>TypeError\<close> of reading a property of \<open>undefined\<close>.
\<close>

datatype js_error = FetchRejected | BodyRejected | Error string | TypeError

text \<open>
  The answer of the network to the one request a query makes: \<open>fetch\<close> rejects, or it
  resolves to a response with a status, a status text and a body that may or may not
  read as text and parse as JSON.
\<close>

datatype 'j fetch_result =
  NetworkFailure
| Response (status: nat) (statusText: string) (text_body: "string option") (json_body: "'j option")

text \<open>
  \<open>response.ok\<close>: the status is in the range 200 to 299.
\<close>

definition response_ok :: "nat \<Rightarrow> bool" where
  "response_ok code = (200 \<le> code \<and> code \<le> 299)"

text \<open>
  A network failure or a response outside the 2xx range.
\<close>

definition failed :: "'j fetch_result \<Rightarrow> bool" where
  "failed r = (case r of NetworkFailure \<Rightarrow> True | Response code _ _ _ \<Rightarrow> \<not> response_ok code)"

text \<open>
  \<open>try { ... } catch (error) { ... }\<close> around a computation that returns or throws.
\<close>

definition try_catch :: "js_error + 'a \<Rightarrow> (js_error \<Rightarrow> 'a) \<Rightarrow> 'a" where
  "try_catch attempt handler = (case attempt of Inl e \<Rightarrow> handler e | Inr v \<Rightarrow> v)"

text \<open>
  The records of the indexer. The response of the parent-subaccount route is whatever
  JSON arrives, so \<open>subaccount\<close> and \<open>childSubaccounts\<close> may be missing. The fields of
  type \<open>any\<close> are left out.
\<close>

record Subaccount =
  address :: string
  sub_subaccountNumber :: nat
  equity :: "string option"
  freeCollateral :: "string option"
  assetPositions :: "(string \<times> AssetPosition) list option"

record ParentSubaccount =
  parent_address :: string
  parentSubaccountNumber :: nat
  parent_equity :: "string option"
  parent_freeCollateral :: "string option"
  childSubaccounts :: "Subaccount list option"

record ParentSubaccountResponse =
  subaccount :: "ParentSubaccount option"

record SubaccountResponse =
  subaccounts :: "Subaccount list"

record AssetPositionsResponse =
  positions :: "AssetPosition list"

record SubaccountAssets =
  sa_subaccountNumber :: nat
  sa_positions :: "AssetPosition list"

text \<open>
  The object that \<open>getParentSubaccount\<close> builds on a 404 and in its handler.
\<close>

definition emptyParentSubaccount :: "string \<Rightarrow> nat \<Rightarrow> ParentSubaccountResponse" where
  "emptyParentSubaccount addr n =
     \<lparr>subaccount = Some \<lparr>parent_address = addr, parentSubaccountNumber = n,
        parent_equity = None, parent_freeCollateral = None, childSubaccounts = Some []\<rparr>\<rparr>"

text \<open>
  \<open>getParentSubaccount\<close> awaits every promise inside its \<open>try\<close>, so its handler sees
  every failure.
\<close>

definition getParentSubaccount ::
  "string \<Rightarrow> nat \<Rightarrow> ParentSubaccountResponse fetch_result \<Rightarrow> js_error + ParentSubaccountResponse" where
  "getParentSubaccount addr n r =
     Inr (try_catch
       (case r of
          NetworkFailure \<Rightarrow> Inl FetchRejected
        | Response code text errorText data \<Rightarrow>
            if \<not> response_ok code
            then (if code = 404 then Inr (emptyParentSubaccount addr n)
                  else (case errorText of
                          None \<Rightarrow> Inl BodyRejected
                        | Some _ \<Rightarrow> Inl (Error (''Failed to fetch parent subaccount: '' @ text))))
            else (case data of None \<Rightarrow> Inl BodyRejected | Some d \<Rightarrow> Inr d))
       (\<lambda>error. emptyParentSubaccount addr n))"

definition getSubaccounts ::
  "string \<Rightarrow> ParentSubaccountResponse fetch_result \<Rightarrow> js_error + SubaccountResponse" where
  "getSubaccounts addr r =
     Inr (try_catch
       (case getParentSubaccount addr 0 r of
          Inl e \<Rightarrow> Inl e
        | Inr response \<Rightarrow>
            (case subaccount response of
               None \<Rightarrow> Inl TypeError
             | Some s \<Rightarrow>
                 Inr \<lparr>subaccounts = (case childSubaccounts s of None \<Rightarrow> [] | Some cs \<Rightarrow> cs)\<rparr>))
       (\<lambda>error. \<lparr>subaccounts = []\<rparr>))"

text \<open>
  \<open>getSubaccountAssetPositions\<close> returns the promise of \<open>response.json()\<close> without
  awaiting it: the \<open>try\<close> block ends with a promise, and a rejection of that promise
  goes to the caller, not to the handler.
\<close>

definition getSubaccountAssetPositions ::
  "string \<Rightarrow> nat \<Rightarrow> AssetPositionsResponse fetch_result \<Rightarrow> js_error + AssetPositionsResponse" where
  "getSubaccountAssetPositions addr n r =
     try_catch
       (case r of
          NetworkFailure \<Rightarrow> Inl FetchRejected
        | Response code text errorText data \<Rightarrow>
            if \<not> response_ok code
            then (if code = 404 then Inr (Inr \<lparr>positions = []\<rparr>)
                  else Inl (Error (''Failed to fetch asset positions: '' @ text)))
            else Inr (case data of None \<Rightarrow> Inl BodyRejected | Some d \<Rightarrow> Inr d))
       (\<lambda>error. Inr \<lparr>positions = []\<rparr>)"

text \<open>
  The callback of the \<open>map\<close> in \<open>getAllSubaccountAssets\<close>: the positions object of a
  child becomes a list, with \<open>position.symbol || symbol\<close> and the child's number.
\<close>

definition childPositions :: "Subaccount \<Rightarrow> SubaccountAssets" where
  "childPositions childSubaccount =
     \<lparr>sa_subaccountNumber = sub_subaccountNumber childSubaccount,
      sa_positions =
        (case assetPositions childSubaccount of
           None \<Rightarrow> []
         | Some ps \<Rightarrow>
             map (\<lambda>(key, position).
                    position\<lparr>ap_symbol := (if ap_symbol position = [] then key else ap_symbol position),
                             subaccountNumber := Some (sub_subaccountNumber childSubaccount)\<rparr>) ps)\<rparr>"

definition getAllSubaccountAssets ::
  "string \<Rightarrow> nat \<Rightarrow> ParentSubaccountResponse fetch_result \<Rightarrow> js_error + SubaccountAssets list" where
  "getAllSubaccountAssets addr n r =
     Inr (try_catch
       (case getParentSubaccount addr n r of
          Inl e \<Rightarrow> Inl e
        | Inr response \<Rightarrow>
            (case subaccount response of
               None \<Rightarrow> Inr []
             | Some s \<Rightarrow>
                 (case childSubaccounts s of
                    None \<Rightarrow> Inr []
                  | Some cs \<Rightarrow> if length cs = 0 then Inr [] else Inr (map childPositions cs))))
       (\<lambda>error. []))"

text \<open>
  The metadata client; its two queries have the shape of the one above.
\<close>

definition getAssetInfo ::
  "string list option \<Rightarrow> (string \<times> AssetInfo) list fetch_result \<Rightarrow>
     js_error + (string \<times> AssetInfo) list" where
  "getAssetInfo assets r =
     try_catch
       (case r of
          NetworkFailure \<Rightarrow> Inl FetchRejected
        | Response code text errorText data \<Rightarrow>
            if \<not> response_ok code
            then Inl (Error (''Failed to fetch asset info: '' @ text))
            else Inr (case data of None \<Rightarrow> Inl BodyRejected | Some d \<Rightarrow> Inr d))
       (\<lambda>error. Inr [])"

record AssetPrice =
  price_symbol :: string
  price :: string

definition getAssetPrices ::
  "string list option \<Rightarrow> (string \<times> AssetPrice) list fetch_result \<Rightarrow>
     js_error + (string \<times> AssetPrice) list" where
  "getAssetPrices assets r =
     try_catch
       (case r of
          NetworkFailure \<Rightarrow> Inl FetchRejected
        | Response code text errorText data \<Rightarrow>
            if \<not> response_ok code
            then Inl (Error (''Failed to fetch asset prices: '' @ text))
            else Inr (case data of None \<Rightarrow> Inl BodyRejected | Some d \<Rightarrow> Inr d))
       (\<lambda>error. Inr [])"

section \<open>The Connect component\<close>

text \<open>
  The local state of the component: \<open>state\<close>, one of \<open>'initial'\<close>, \<open>'submitting'\<close> and
  \<open>'success'\<close>, and the flag \<open>error\<close>.
\<close>

datatype phase = Initial | Submitting | Success

text \<open>
  The two subscription streams, and what a call into the RPC modules does: it returns
  or it throws. Clients and subscription objects are identified by numbers.
\<close>

datatype stream = NewBlock | TxEvent

datatype 'a outcome = Returns 'a | Throws

text \<open>
  The calls that \<open>connectClient\<close> makes on subscriptions and clients, in the order it
  makes them: \<open>unsubscribe\<close> on a handle, \<open>disconnect\<close> on a client,
  \<open>connectWebsocketClient\<close> on an address, and \<open>subscribeNewBlock\<close> or \<open>subscribeTx\<close> on
  a client.
\<close>

datatype rpc_call = Unsubscribe nat | Disconnect nat | Connect string | Subscribe stream nat

text \<open>
  The slices of the Redux store that the component writes: the connection, the stream
  and the chain parameters. Events and parameters are opaque values.
\<close>

record redux_store =
  connectState :: bool
  tmClient :: "nat option"
  rpcAddress :: string
  subsNewBlock :: "nat option"
  subsTxEvent :: "nat option"
  newBlock :: "string option"
  txEvent :: "string option"
  stakingParams :: "string option"
  mintParams :: "string option"
  distributionParams :: "string option"
  slashingParams :: "string option"
  govVotingParams :: "string option"
  govDepositParams :: "string option"
  govTallyParams :: "string option"

text \<open>
  The RPC side: the next fresh identifier, the subscriptions that are active with their
  stream, the clients that are connected, and the log of the calls made.
\<close>

record rpc_world =
  next_id :: nat
  live :: "(nat \<times> stream) list"
  connected :: "nat list"
  calls :: "rpc_call list"

text \<open>
  The whole state: the store, the two local cells and the RPC side.
\<close>

record app =
  store :: redux_store
  state :: phase
  error :: bool
  world :: rpc_world

text \<open>
  What the collaborators of one run of \<open>connectClient\<close> do. \<open>validateConnection\<close> returns
  a boolean, \<open>connectWebsocketClient\<close> returns a client (\<open>True\<close>) or nothing (\<open>False\<close>),
  and each of them may throw.
\<close>

record outcomes =
  validateConnection :: "bool outcome"
  unsubscribeNewBlock :: "unit outcome"
  unsubscribeTx :: "unit outcome"
  disconnect :: "unit outcome"
  connectWebsocketClient :: "bool outcome"
  subscribeNewBlock :: "unit outcome"
  subscribeTx :: "unit outcome"

text \<open>
  The three ways a statement inside the \<open>try\<close> block ends: control goes on, the function
  returns, or an exception goes to the \<open>catch\<close> block.
\<close>

datatype flow = Continue app | Return app | Throw app

definition and_then :: "flow \<Rightarrow> (app \<Rightarrow> flow) \<Rightarrow> flow" where
  "and_then f step = (case f of Continue a \<Rightarrow> step a | Return a \<Rightarrow> Return a | Throw a \<Rightarrow> Throw a)"

text \<open>
  A call is appended to the log.
\<close>

definition logged :: "rpc_call \<Rightarrow> app \<Rightarrow> app" where
  "logged c a = a\<lparr>world := (world a)\<lparr>calls := calls (world a) @ [c]\<rparr>\<rparr>"

text \<open>
  \<open>setError(true); setState('initial')\<close>.
\<close>

definition fail :: "app \<Rightarrow> app" where
  "fail a = a\<lparr>error := True, state := Initial\<rparr>"

text \<open>
  \<open>setError(false); setState('submitting')\<close>.
\<close>

definition begin_connect :: "app \<Rightarrow> flow" where
  "begin_connect a = Continue (a\<lparr>error := False, state := Submitting\<rparr>)"

text \<open>
  The test \<open>if (!rpcAddress)\<close>: the empty string is falsy.
\<close>

definition checkAddress :: "string \<Rightarrow> app \<Rightarrow> flow" where
  "checkAddress addr a = (if addr = [] then Return (fail a) else Continue a)"

text \<open>
  \<open>await validateConnection(rpcAddress)\<close> and the test of its result.
\<close>

definition validate :: "outcomes \<Rightarrow> app \<Rightarrow> flow" where
  "validate env a =
     (case validateConnection env of
        Throws \<Rightarrow> Throw a
      | Returns isValid \<Rightarrow> if \<not> isValid then Return (fail a) else Continue a)"

text \<open>
  The clean-up of the previous subscriptions. The handles are the values that the hooks
  read from the store, passed as arguments. A handle that is present is unsubscribed and
  its cell in the store is set to null; an exception of \<open>unsubscribe\<close> leaves the cell as
  it is.
\<close>

definition cleanupNewBlock :: "outcomes \<Rightarrow> nat option \<Rightarrow> app \<Rightarrow> flow" where
  "cleanupNewBlock env currentSubsNewBlock a =
     (case currentSubsNewBlock of
        None \<Rightarrow> Continue a
      | Some h \<Rightarrow>
          (case unsubscribeNewBlock env of
             Throws \<Rightarrow> Throw (logged (Unsubscribe h) a)
           | Returns _ \<Rightarrow>
               Continue ((logged (Unsubscribe h) a)
                 \<lparr>world := (world (logged (Unsubscribe h) a))
                    \<lparr>live := filter (\<lambda>(k, s). k \<noteq> h) (live (world a))\<rparr>,
                  store := (store a)\<lparr>subsNewBlock := None\<rparr>\<rparr>)))"

definition cleanupTx :: "outcomes \<Rightarrow> nat option \<Rightarrow> app \<Rightarrow> flow" where
  "cleanupTx env currentSubsTxEvent a =
     (case currentSubsTxEvent of
        None \<Rightarrow> Continue a
      | Some h \<Rightarrow>
          (case unsubscribeTx env of
             Throws \<Rightarrow> Throw (logged (Unsubscribe h) a)
           | Returns _ \<Rightarrow>
               Continue ((logged (Unsubscribe h) a)
                 \<lparr>world := (world (logged (Unsubscribe h) a))
                    \<lparr>live := filter (\<lambda>(k, s). k \<noteq> h) (live (world a))\<rparr>,
                  store := (store a)\<lparr>subsTxEvent := None\<rparr>\<rparr>)))"

text \<open>
  The previous client is disconnected inside a \<open>try\<close> of its own: an exception is
  logged as a warning and the run goes on.
\<close>

definition cleanupClient :: "outcomes \<Rightarrow> nat option \<Rightarrow> app \<Rightarrow> flow" where
  "cleanupClient env currentTmClient a =
     (case currentTmClient of
        None \<Rightarrow> Continue a
      | Some c \<Rightarrow>
          (case disconnect env of
             Throws \<Rightarrow> Continue (logged (Disconnect c) a)
           | Returns _ \<Rightarrow>
               Continue ((logged (Disconnect c) a)
                 \<lparr>world := (world (logged (Disconnect c) a))
                    \<lparr>connected := filter (\<lambda>k. k \<noteq> c) (connected (world a))\<rparr>\<rparr>)))"

text \<open>
  The stream data and the seven parameter cells are set to null.
\<close>

definition resetData :: "app \<Rightarrow> flow" where
  "resetData a =
     Continue (a\<lparr>store := (store a)
       \<lparr>newBlock := None, txEvent := None, stakingParams := None, mintParams := None,
        distributionParams := None, slashingParams := None, govVotingParams := None,
        govDepositParams := None, govTallyParams := None\<rparr>\<rparr>)"

text \<open>
  A client is created: it gets the next identifier and is connected, and the store takes
  the connected flag, the client and the address.
\<close>

definition new_client :: "string \<Rightarrow> app \<Rightarrow> app" where
  "new_client addr a =
     a\<lparr>world := (world a)\<lparr>next_id := Suc (next_id (world a)),
                           connected := connected (world a) @ [next_id (world a)],
                           calls := calls (world a) @ [Connect addr]\<rparr>,
       store := (store a)\<lparr>connectState := True, tmClient := Some (next_id (world a)),
                           rpcAddress := addr\<rparr>\<rparr>"

text \<open>
  A subscription is created on a client: it gets the next identifier and is active.
\<close>

definition new_subscription :: "stream \<Rightarrow> nat \<Rightarrow> app \<Rightarrow> app" where
  "new_subscription s c a =
     a\<lparr>world := (world a)\<lparr>next_id := Suc (next_id (world a)),
                           live := live (world a) @ [(next_id (world a), s)],
                           calls := calls (world a) @ [Subscribe s c]\<rparr>\<rparr>"

text \<open>
  From \<open>await connectWebsocketClient(rpcAddress)\<close> to \<open>setState('success')\<close>. The three
  dispatches on the connection come before the two subscriptions, and the handles are
  stored after both subscriptions exist.
\<close>

definition establish :: "outcomes \<Rightarrow> string \<Rightarrow> app \<Rightarrow> flow" where
  "establish env addr a =
     (case connectWebsocketClient env of
        Throws \<Rightarrow> Throw (logged (Connect addr) a)
      | Returns created \<Rightarrow>
          if \<not> created then Return (fail (logged (Connect addr) a))
          else
            (let tmc = next_id (world a); a1 = new_client addr a
             in case subscribeNewBlock env of
                  Throws \<Rightarrow> Throw (logged (Subscribe NewBlock tmc) a1)
                | Returns _ \<Rightarrow>
                    (let newBlockSub = next_id (world a1); a2 = new_subscription NewBlock tmc a1
                     in case subscribeTx env of
                          Throws \<Rightarrow> Throw (logged (Subscribe TxEvent tmc) a2)
                        | Returns _ \<Rightarrow>
                            (let txSub = next_id (world a2); a3 = new_subscription TxEvent tmc a2
                             in Continue (a3\<lparr>store := (store a3)\<lparr>subsNewBlock := Some newBlockSub,
                                                 subsTxEvent := Some txSub\<rparr>,
                                              state := Success\<rparr>)))))"

text \<open>
  The body of the \<open>try\<close> block. The hooks \<open>currentSubsNewBlock\<close>, \<open>currentSubsTxEvent\<close>
  and \<open>currentTmClient\<close> hold the values of the store at the render that created the
  callback, which are the values of the store when the callback is called.
\<close>

definition connectClient_try :: "outcomes \<Rightarrow> string \<Rightarrow> app \<Rightarrow> flow" where
  "connectClient_try env addr a =
     and_then (and_then (and_then (and_then (and_then (and_then (and_then
       (begin_connect a)
       (checkAddress addr))
       (validate env))
       (cleanupNewBlock env (subsNewBlock (store a))))
       (cleanupTx env (subsTxEvent (store a))))
       (cleanupClient env (tmClient (store a))))
       resetData)
       (establish env addr)"

text \<open>
  The \<open>catch\<close> block sets the error flag and the state \<open>'initial'\<close>.
\<close>

definition connectClient :: "outcomes \<Rightarrow> string \<Rightarrow> app \<Rightarrow> app" where
  "connectClient env addr a =
     (case connectClient_try env addr a of
        Continue a' \<Rightarrow> a'
      | Return a' \<Rightarrow> a'
      | Throw a' \<Rightarrow> fail a')"

text \<open>
  The application before any connection, and collaborators that all succeed.
\<close>

definition fresh_app :: app where
  "fresh_app =
     \<lparr>store = \<lparr>connectState = False, tmClient = None, rpcAddress = [], subsNewBlock = None,
         subsTxEvent = None, newBlock = None, txEvent = None, stakingParams = None,
         mintParams = None, distributionParams = None, slashingParams = None,
         govVotingParams = None, govDepositParams = None, govTallyParams = None\<rparr>,
      state = Initial, error = False,
      world = \<lparr>next_id = 0, live = [], connected = [], calls = []\<rparr>\<rparr>"

definition all_fine :: outcomes where
  "all_fine = \<lparr>validateConnection = Returns True, unsubscribeNewBlock = Returns (),
     unsubscribeTx = Returns (), disconnect = Returns (), connectWebsocketClient = Returns True,
     subscribeNewBlock = Returns (), subscribeTx = Returns ()\<rparr>"



text \<open>
  The run that reaches \<open>setState('success')\<close>: the address is not empty, the validation
  returns true, the handles that are present unsubscribe without an exception, a client
  is created and both subscriptions are created.
\<close>

definition success_path :: "outcomes \<Rightarrow> string \<Rightarrow> app \<Rightarrow> bool" where
  "success_path env addr a =
     (addr \<noteq> [] \<and> validateConnection env = Returns True \<and>
      (subsNewBlock (store a) = None \<or> unsubscribeNewBlock env = Returns ()) \<and>
      (subsTxEvent (store a) = None \<or> unsubscribeTx env = Returns ()) \<and>
      connectWebsocketClient env = Returns True \<and>
      subscribeNewBlock env = Returns () \<and> subscribeTx env = Returns ())"

text \<open>
  The calls of the clean-up, and the handles that the store holds with their streams.
\<close>

definition teardown_calls :: "app \<Rightarrow> rpc_call list" where
  "teardown_calls a =
     (case subsNewBlock (store a) of None \<Rightarrow> [] | Some h \<Rightarrow> [Unsubscribe h]) @
     (case subsTxEvent (store a) of None \<Rightarrow> [] | Some h \<Rightarrow> [Unsubscribe h]) @
     (case tmClient (store a) of None \<Rightarrow> [] | Some c \<Rightarrow> [Disconnect c])"

definition held :: "app \<Rightarrow> (nat \<times> stream) list" where
  "held a =
     (case subsNewBlock (store a) of None \<Rightarrow> [] | Some h \<Rightarrow> [(h, NewBlock)]) @
     (case subsTxEvent (store a) of None \<Rightarrow> [] | Some h \<Rightarrow> [(h, TxEvent)])"


text \<open>
  The active subscriptions of a stream.
\<close>

definition active :: "stream \<Rightarrow> app \<Rightarrow> nat list" where
  "active s a = map fst (filter (\<lambda>(k, s'). s' = s) (live (world a)))"

section \<open>Account page: the total of available and delegated amounts\<close>

text \<open>
  The amount of a \<open>Coin\<close> is a string of decimal digits. Its value is an unbounded
  integer.
\<close>

definition digitValue :: "char \<Rightarrow> int option" where
  "digitValue c =
     (let n = (of_char c :: int) in if 48 \<le> n \<and> n \<le> 57 then Some (n - 48) else None)"

fun parseDigits :: "string \<Rightarrow> int \<Rightarrow> int option" where
  "parseDigits [] acc = Some acc"
| "parseDigits (c # cs) acc =
     (case digitValue c of None \<Rightarrow> None | Some v \<Rightarrow> parseDigits cs (10 * acc + v))"

definition parseDecimal :: "string \<Rightarrow> int option" where
  "parseDecimal s = (if s = [] then None else parseDigits s 0)"

text \<open>
  A JavaScript number is an IEEE 754 double. The doubles that occur here are the
  non-negative integers with at most 53 significant bits, and \<open>Infinity\<close>.
\<close>

datatype js_number = Finite int | Infinity

text \<open>
  The number of bits of a positive integer.
\<close>

function bit_length :: "int \<Rightarrow> nat" where
  "bit_length n = (if n \<le> 0 then 0 else Suc (bit_length (n div 2)))"
  by pat_completeness auto
termination
  by (relation "measure nat") auto

declare bit_length.simps [simp del]

text \<open>
  The double nearest to a non-negative integer, ties going to the even significand.
  With more than 53 bits the integer is rounded to a multiple of
  \<open>2 ^ (bit_length n - 53)\<close>; from \<open>2 ^ 1024 - 2 ^ 970\<close> on the result is \<open>Infinity\<close>.
\<close>

definition toDouble :: "int \<Rightarrow> js_number" where
  "toDouble n =
     (if 2 ^ 1024 - 2 ^ 970 \<le> n then Infinity
      else if bit_length n \<le> 53 then Finite n
      else
        (let ulp = 2 ^ (bit_length n - 53); q = n div ulp; r = n mod ulp
         in if 2 * r < ulp then Finite (q * ulp)
            else if ulp < 2 * r then Finite ((q + 1) * ulp)
            else if even q then Finite (q * ulp) else Finite ((q + 1) * ulp)))"

text \<open>
  \<open>parseFloat\<close> on a string of decimal digits, which is what the amount of a coin is;
  other strings are outside this model (\<open>None\<close>).
\<close>

definition parseFloat :: "string \<Rightarrow> js_number option" where
  "parseFloat s = map_option toDouble (parseDecimal s)"

text \<open>
  The operator \<open>+\<close> on numbers: the exact sum, rounded to a double.
\<close>

definition js_add :: "js_number \<Rightarrow> js_number \<Rightarrow> js_number" where
  "js_add x y =
     (case x of
        Infinity \<Rightarrow> Infinity
      | Finite a \<Rightarrow> (case y of Infinity \<Rightarrow> Infinity | Finite b \<Rightarrow> toDouble (a + b)))"

text \<open>
  \<open>parseFloat(balance.amount) + parseFloat(stakedForThisToken.amount)\<close>, the number whose
  \<open>toString()\<close> is \<open>totalAmount\<close> when there is a delegation for the token.
\<close>

definition totalAmountNumber :: "Coin \<Rightarrow> Coin \<Rightarrow> js_number option" where
  "totalAmountNumber balance stakedForThisToken =
     (case parseFloat (amount balance) of
        None \<Rightarrow> None
      | Some x \<Rightarrow>
          (case parseFloat (amount stakedForThisToken) of
             None \<Rightarrow> None
           | Some y \<Rightarrow> Some (js_add x y)))"


section \<open>The conversion of amounts\<close>

text \<open>
  Modelled from the spec: the decimal shift behind \<open>getConvertedAmount\<close>, which is not
  among the sources. A string of digits is shifted by an exponent: the point moves
  \<open>e\<close> places to the left, zeros at the end of the fraction and at the front of the whole
  part are dropped; a negative exponent appends zeros.
\<close>

definition stripTrailingZeros :: "string \<Rightarrow> string" where
  "stripTrailingZeros s = rev (dropWhile (\<lambda>c. c = CHR ''0'') (rev s))"

definition stripLeadingZeros :: "string \<Rightarrow> string" where
  "stripLeadingZeros s = (case dropWhile (\<lambda>c. c = CHR ''0'') s of [] \<Rightarrow> ''0'' | r \<Rightarrow> r)"

definition shiftDecimal :: "string \<Rightarrow> int \<Rightarrow> string" where
  "shiftDecimal digits e =
     (if e \<le> 0 then stripLeadingZeros (digits @ replicate (nat (- e)) CHR ''0'')
      else
        (let padded = replicate (nat e + 1 - length digits) CHR ''0'' @ digits;
             whole = take (length padded - nat e) padded;
             frac = stripTrailingZeros (drop (length padded - nat e) padded)
         in stripLeadingZeros whole @ (if frac = [] then [] else CHR ''.'' # frac)))"

text \<open>
  Modelled from the spec: \<open>getConvertedAmount\<close> of the module \<open>@/utils/cosmos\<close>, which
  is not among the sources. With an exponent the amount is shifted by it. Without one,
  the amount of a denom with the prefix \<open>u\<close> is shifted by 6, as the example of the spec
  requires (\<open>1500000\<close> of \<open>uusdc\<close> is \<open>1.5\<close>); the exponent for the prefix \<open>a\<close> is not
  given by the spec and is a parameter; any other amount is left as it is. The base
  denom is the denom without its prefix.
\<close>

definition spec_getConvertedAmount :: "int \<Rightarrow> string \<Rightarrow> string \<Rightarrow> int option \<Rightarrow> string \<times> string" where
  "spec_getConvertedAmount attoExponent amt d exponent =
     (let prefixed = (startsWith d ''u'' \<or> startsWith d ''a'');
          base = (if prefixed then tl d else d)
      in case exponent of
           Some e \<Rightarrow> (shiftDecimal amt e, base)
         | None \<Rightarrow>
             if startsWith d ''u'' then (shiftDecimal amt 6, base)
             else if startsWith d ''a'' then (shiftDecimal amt attoExponent, base)
             else (amt, d))"

text \<open>
  Modelled from the spec: the module with this conversion; \<open>formatAmount\<close> and
  \<open>formatDenom\<close> remain parameters.
\<close>

definition spec_utils :: "int \<Rightarrow> (string \<Rightarrow> string) \<Rightarrow> (string \<Rightarrow> string) \<Rightarrow> cosmos_utils" where
  "spec_utils attoExponent fa fd =
     \<lparr>getConvertedAmount = spec_getConvertedAmount attoExponent, formatAmount = fa,
      formatDenom = fd\<rparr>"

section \<open>Properties of the page window\<close>

lemma ceiling_div_nat:
  assumes "0 < (k::nat)"
  shows "\<lceil>real n / real k\<rceil> = (if n mod k = 0 then int (n div k) else int (n div k) + 1)"
proof -
  have eq: "real n = real (n div k) * real k + real (n mod k)"
    by (metis div_mult_mod_eq of_nat_add of_nat_mult)
  have kr: "0 < real k" using assms by simp
  have q: "real n / real k = real (n div k) + real (n mod k) / real k"
    using kr by (subst eq) (simp add: field_simps)
  show ?thesis
  proof (cases "n mod k = 0")
    case True
    then show ?thesis using q by simp
  next
    case False
    have "0 < real (n mod k) / real k" using False kr by simp
    moreover have "real (n mod k) / real k < 1" using assms by simp
    ultimately have "\<lceil>real (n div k) + real (n mod k) / real k\<rceil> = int (n div k) + 1"
      by (simp add: ceiling_eq_iff)
    then show ?thesis using False q by simp
  qed
qed

lemma totalPages_ceiling:
  "0 < itemsPerPage st \<Longrightarrow>
     int (totalPages st) = \<lceil>real (length (ibcTokens st)) / real (itemsPerPage st)\<rceil>"
  by (simp add: ceiling_div_nat totalPages_def Let_def)

lemma totalPages_currentPage:
  "totalPages (st\<lparr>currentPage := p\<rparr>) = totalPages st"
  by (simp add: totalPages_def ibcTokens_def)

lemma page_ok_effectIbcTokens:
  "1 \<le> currentPage st \<Longrightarrow> page_ok (effectIbcTokens st)"
  by (auto simp: page_ok_def effectIbcTokens_def totalPages_currentPage)

lemma page_ok_handlePageChange: "page_ok (handlePageChange page st)"
  by (simp add: page_ok_def handlePageChange_def totalPages_currentPage)

lemma page_ok_setBalances: "page_ok st \<Longrightarrow> page_ok (setBalances bs st)"
  unfolding setBalances_def
  by (rule page_ok_effectIbcTokens) (simp add: page_ok_def)

lemma page_ok_handleItemsPerPageChange:
  "page_ok st \<Longrightarrow> page_ok (handleItemsPerPageChange n st)"
proof (cases "n = itemsPerPage st")
  case True
  assume "page_ok st"
  then show ?thesis using True by (simp add: handleItemsPerPageChange_def)
next
  case False
  have "page_ok (effectIbcTokens (st\<lparr>itemsPerPage := n, currentPage := 1\<rparr>))"
    by (rule page_ok_effectIbcTokens) simp
  then show ?thesis using False by (simp add: handleItemsPerPageChange_def)
qed

text \<open>
  Claim C7, as stated, fails when the new token set has no IBC token: \<open>totalPages\<close> is
  0, the guard \<open>totalPages > 0\<close> of the effect is false, and the page stays at 3, beyond
  the last page.
\<close>

theorem page_window_counterexample:
  "int (totalPages (setBalances [] ibc23)) < currentPage (setBalances [] ibc23)
   \<and> currentPage (setBalances [] ibc23) \<noteq> 1"
  by (simp add: ibc23_def setBalances_def effectIbcTokens_def totalPages_def ibcTokens_def)

text \<open>
  Claim C7, amended. The page size is one of the positive presets. Whenever there is at
  least one page, a page request is clamped into
  \<open>[1, totalPages]\<close>, and the range property \<open>page_ok\<close> is kept by page requests,
  token-set changes and page-size changes. With 23 IBC tokens and page size 10 there are
  3 pages, page 3 shows the 3 items at indices 20 to 22, a request for page 0 gives page
  1 and a request for page 4 gives page 3. When the token set changes so that the current
  page exceeds a positive \<open>totalPages\<close> the page resets to 1, and a change of the page
  size always resets it to 1.
\<close>

theorem page_window_clamped:
  assumes "0 < itemsPerPage st" and "0 < n"
  shows "(0 < totalPages st \<longrightarrow>
      1 \<le> currentPage (handlePageChange page st) \<and>
      currentPage (handlePageChange page st) \<le> int (totalPages st))
   \<and> (page_ok st \<longrightarrow>
      page_ok (handlePageChange page st) \<and> page_ok (setBalances bs st) \<and>
      page_ok (handleItemsPerPageChange n st))
   \<and> (length (ibcTokens st) = 23 \<and> itemsPerPage st = 10 \<longrightarrow>
      totalPages st = 3 \<and>
      currentPage (handlePageChange 0 st) = 1 \<and>
      currentPage (handlePageChange 4 st) = 3 \<and>
      (currentPage st = 3 \<longrightarrow>
         paginatedIbcTokens st = drop 20 (ibcTokens st) \<and>
         length (paginatedIbcTokens st) = 3))
   \<and> (0 < totalPages (st\<lparr>balances := bs\<rparr>) \<and>
       int (totalPages (st\<lparr>balances := bs\<rparr>)) < currentPage st \<longrightarrow>
      currentPage (setBalances bs st) = 1)
   \<and> (n \<noteq> itemsPerPage st \<longrightarrow> currentPage (handleItemsPerPageChange n st) = 1)"
proof -
  have clamp: "0 < totalPages st \<longrightarrow>
      1 \<le> currentPage (handlePageChange page st) \<and>
      currentPage (handlePageChange page st) \<le> int (totalPages st)"
    by (simp add: handlePageChange_def)
  have keep: "page_ok st \<longrightarrow>
      page_ok (handlePageChange page st) \<and> page_ok (setBalances bs st) \<and>
      page_ok (handleItemsPerPageChange n st)"
    by (simp add: page_ok_handlePageChange page_ok_setBalances
        page_ok_handleItemsPerPageChange)
  have example: "length (ibcTokens st) = 23 \<and> itemsPerPage st = 10 \<longrightarrow>
      totalPages st = 3 \<and>
      currentPage (handlePageChange 0 st) = 1 \<and>
      currentPage (handlePageChange 4 st) = 3 \<and>
      (currentPage st = 3 \<longrightarrow>
         paginatedIbcTokens st = drop 20 (ibcTokens st) \<and>
         length (paginatedIbcTokens st) = 3)"
    by (simp add: handlePageChange_def totalPages_def paginatedIbcTokens_def js_slice_def
        startIndex_def endIndex_def)
  have tokens: "0 < totalPages (st\<lparr>balances := bs\<rparr>) \<and>
       int (totalPages (st\<lparr>balances := bs\<rparr>)) < currentPage st \<longrightarrow>
      currentPage (setBalances bs st) = 1"
    by (simp add: setBalances_def effectIbcTokens_def)
  have size: "n \<noteq> itemsPerPage st \<longrightarrow> currentPage (handleItemsPerPageChange n st) = 1"
    by (simp add: handleItemsPerPageChange_def effectIbcTokens_def)
  show ?thesis
    by (rule conjI [OF clamp conjI [OF keep conjI [OF example conjI [OF tokens size]]]])
qed

theorem page_window_clamped_witness:
  "0 < itemsPerPage ibc23 \<and> (0 :: nat) < 20 \<and>
   0 < totalPages ibc23 \<and> page_ok ibc23 \<and>
   length (ibcTokens ibc23) = 23 \<and> itemsPerPage ibc23 = 10 \<and> currentPage ibc23 = 3 \<and>
   0 < totalPages (ibc23\<lparr>balances := [\<lparr>denom = ''ibc/B'', amount = ''7''\<rparr>]\<rparr>) \<and>
   int (totalPages (ibc23\<lparr>balances := [\<lparr>denom = ''ibc/B'', amount = ''7''\<rparr>]\<rparr>))
     < currentPage ibc23 \<and>
   20 \<noteq> itemsPerPage ibc23 \<and>
   currentPage (handlePageChange 4 ibc23) = 3 \<and>
   page_ok (setBalances [\<lparr>denom = ''ibc/B'', amount = ''7''\<rparr>] ibc23) \<and>
   length (paginatedIbcTokens ibc23) = 3 \<and>
   currentPage (setBalances [\<lparr>denom = ''ibc/B'', amount = ''7''\<rparr>] ibc23) = 1 \<and>
   currentPage (handleItemsPerPageChange 20 ibc23) = 1"
proof -
  have p: "0 < itemsPerPage ibc23" and q: "(0 :: nat) < 20"
    by (simp_all add: ibc23_def)
  have h: "0 < totalPages ibc23 \<and> page_ok ibc23 \<and>
      length (ibcTokens ibc23) = 23 \<and> itemsPerPage ibc23 = 10 \<and> currentPage ibc23 = 3 \<and>
      0 < totalPages (ibc23\<lparr>balances := [\<lparr>denom = ''ibc/B'', amount = ''7''\<rparr>]\<rparr>) \<and>
      int (totalPages (ibc23\<lparr>balances := [\<lparr>denom = ''ibc/B'', amount = ''7''\<rparr>]\<rparr>))
        < currentPage ibc23 \<and>
      20 \<noteq> itemsPerPage ibc23"
    by (simp add: ibc23_def page_ok_def totalPages_def ibcTokens_def)
  show ?thesis
    using p q h page_window_clamped [OF p q, of 4 "[\<lparr>denom = ''ibc/B'', amount = ''7''\<rparr>]"]
    by blast
qed

section \<open>Properties of the precision resolver\<close>

lemma map_of_map_set: "map_of (map_set k v m) = (map_of m)(k \<mapsto> v)"
  by (induction m) auto

lemma set_map_set: "set (map_set k v m) \<subseteq> insert (k, v) (set m)"
  by (induction m) (auto split: if_splits)

lemma positive_map_set:
  "positive_exponents m \<Longrightarrow> 0 < e \<Longrightarrow> positive_exponents (map_set k e m)"
  using set_map_set [of k e m] by (auto simp: positive_exponents_def list_all_iff)

lemma ingestEntries_positive:
  "positive_exponents (denomExponentMap acc) \<Longrightarrow>
     positive_exponents (denomExponentMap (ingestEntries es acc))"
proof (induction es arbitrary: acc)
  case Nil
  then show ?case by simp
next
  case (Cons a es)
  obtain key info where a: "a = (key, info)" by (cases a)
  show ?case
    unfolding a by (auto simp: Let_def positive_map_set Cons.prems intro!: Cons.IH split: option.splits)
qed

lemma ingestEntries_other:
  "key \<notin> fst ` set es \<Longrightarrow>
     map_of (assetInfoMap (ingestEntries es acc)) key = map_of (assetInfoMap acc) key \<and>
     map_of (denomExponentMap (ingestEntries es acc)) key = map_of (denomExponentMap acc) key"
proof (induction es arbitrary: acc)
  case Nil
  then show ?case by simp
next
  case (Cons a es)
  obtain k info where a: "a = (k, info)" by (cases a)
  from Cons.prems have k: "k \<noteq> key" and rest: "key \<notin> fst ` set es" by (auto simp: a)
  show ?case
    unfolding a using k by (simp add: Let_def Cons.IH [OF rest] map_of_map_set split: option.splits)
qed

lemma ingestEntries_entry:
  "distinct (map fst es) \<Longrightarrow> map_of es key = Some info \<Longrightarrow>
     map_of (assetInfoMap (ingestEntries es acc)) key = Some info \<and>
     map_of (denomExponentMap (ingestEntries es acc)) key =
       (case exponentOf info of
          None \<Rightarrow> map_of (denomExponentMap acc) key
        | Some e \<Rightarrow> if 0 < e then Some e else map_of (denomExponentMap acc) key)"
proof (induction es arbitrary: acc)
  case Nil
  then show ?case by simp
next
  case (Cons a es)
  obtain k i where a: "a = (k, i)" by (cases a)
  show ?case
  proof (cases "k = key")
    case True
    with Cons.prems have i: "i = info" and fresh: "key \<notin> fst ` set es" by (auto simp: a)
    show ?thesis
      unfolding a using True i
      by (simp add: Let_def ingestEntries_other [OF fresh] map_of_map_set split: option.splits)
  next
    case False
    with Cons.prems have d: "distinct (map fst es)" and m: "map_of es key = Some info"
      by (auto simp: a)
    show ?thesis
      unfolding a using False
      by (simp add: Let_def Cons.IH [OF d m] map_of_map_set split: option.splits)
  qed
qed

lemma fuzzyLoop_first_usable:
  "find (\<lambda>(key, info). fuzzyMatch d key \<and> usableExponent info) es = Some (key, info) \<Longrightarrow>
     \<exists>e. exponentOf info = Some e \<and> 0 < e \<and> fuzzyLoop d es x m = (Some e, map_set d e m)"
proof (induction es arbitrary: x)
  case Nil
  then show ?case by simp
next
  case (Cons a es)
  obtain k i where a: "a = (k, i)" by (cases a)
  show ?case
  proof (cases "fuzzyMatch d k \<and> usableExponent i")
    case True
    with Cons.prems have "k = key" "i = info" by (auto simp: a)
    with True show ?thesis
      by (auto simp: a usableExponent_def split: option.splits)
  next
    case False
    with Cons.prems have f: "find (\<lambda>(key, info). fuzzyMatch d key \<and> usableExponent info) es = Some (key, info)"
      by (auto simp: a)
    from False show ?thesis
      using Cons.IH [OF f] by (auto simp: a usableExponent_def split: option.splits)
  qed
qed

lemma fuzzyLoop_no_usable:
  "find (\<lambda>(key, info). fuzzyMatch d key \<and> usableExponent info) es = None \<Longrightarrow>
     snd (fuzzyLoop d es x m) = m"
proof (induction es arbitrary: x)
  case Nil
  then show ?case by simp
next
  case (Cons a es)
  obtain k i where a: "a = (k, i)" by (cases a)
  from Cons.prems have f: "find (\<lambda>(key, info). fuzzyMatch d key \<and> usableExponent info) es = None"
    and no: "\<not> (fuzzyMatch d k \<and> usableExponent i)"
    by (auto simp: a split: if_splits)
  show ?case using no Cons.IH [OF f]
    by (auto simp: a usableExponent_def split: option.splits)
qed

lemma fuzzyLoop_no_match:
  "find (\<lambda>(key, info). fuzzyMatch d key) es = None \<Longrightarrow> fuzzyLoop d es x m = (x, m)"
proof (induction es arbitrary: x)
  case Nil
  then show ?case by simp
next
  case (Cons a es)
  obtain k i where a: "a = (k, i)" by (cases a)
  from Cons.prems have f: "find (\<lambda>(key, info). fuzzyMatch d key) es = None"
    and no: "\<not> fuzzyMatch d k"
    by (auto simp: a split: if_splits)
  show ?case using no Cons.IH [OF f] by (simp add: a)
qed

lemma fuzzyLoop_cases:
  "snd (fuzzyLoop d es x m) = m \<or>
   (\<exists>key info e. (key, info) \<in> set es \<and> fuzzyMatch d key \<and> exponentOf info = Some e \<and> 0 < e \<and>
       fuzzyLoop d es x m = (Some e, map_set d e m))"
proof (cases "find (\<lambda>(key, info). fuzzyMatch d key \<and> usableExponent info) es")
  case None
  then show ?thesis by (simp add: fuzzyLoop_no_usable)
next
  case (Some a)
  obtain key info where a: "a = (key, info)" by (cases a)
  from Some have "(key, info) \<in> set es \<and> fuzzyMatch d key"
    unfolding a by (auto simp: find_Some_iff in_set_conv_nth)
  moreover from fuzzyLoop_first_usable [OF Some [unfolded a]]
  obtain e where "exponentOf info = Some e" "0 < e" "fuzzyLoop d es x m = (Some e, map_set d e m)"
    by blast
  ultimately show ?thesis by blast
qed


lemma fb_exponent_formatBalance:
  "fb_exponent (fst (formatBalance U st b)) = fst (balanceExponent st b)"
  by (simp add: formatBalance_def split: prod.splits)

lemma snd_formatBalance:
  "snd (formatBalance U st b) = snd (balanceExponent st b)"
  by (simp add: formatBalance_def split: prod.splits)

lemma sa_exponent_formatSubaccountAsset:
  "sa_exponent (formatSubaccountAsset U st position) = positionExponent st (ap_symbol position)"
  by (simp add: formatSubaccountAsset_def Let_def)

lemma exponentOf_first_defined:
  "exponentOf info =
     (case atomicResolution info of
        Some a \<Rightarrow> Some a
      | None \<Rightarrow> (case denomExponent info of Some d \<Rightarrow> Some d | None \<Rightarrow> decimals info))"
  by (simp add: exponentOf_def nullish_def)

lemma ingestAssetInfo_entry:
  assumes "distinct (map fst entries)" and "map_of entries key = Some info"
  shows "map_of (assetInfoMap (ingestAssetInfo entries)) key = Some info"
    and "map_of (denomExponentMap (ingestAssetInfo entries)) key =
       (case exponentOf info of None \<Rightarrow> None | Some e \<Rightarrow> if 0 < e then Some e else None)"
  using ingestEntries_entry [OF assms, of "\<lparr>assetInfoMap = [], denomExponentMap = []\<rparr>"]
  by (simp_all add: ingestAssetInfo_def split: option.splits)

lemma balanceExponent_miss:
  "map_of (denomExponentMap st) (denom b) = None \<Longrightarrow>
     balanceExponent st b =
       (fst (fuzzyLoop (denom b) (assetInfoMap st) None (denomExponentMap st)),
        st\<lparr>denomExponentMap :=
             snd (fuzzyLoop (denom b) (assetInfoMap st) None (denomExponentMap st))\<rparr>)"
  by (simp add: balanceExponent_def case_prod_beta)

lemma balanceExponent_hit:
  "map_of (denomExponentMap st) (denom b) = Some e \<Longrightarrow> balanceExponent st b = (Some e, st)"
  by (simp add: balanceExponent_def)

lemma balanceExponent_cache:
  "snd (balanceExponent st b) = st \<or>
   (\<exists>key info e. (key, info) \<in> set (assetInfoMap st) \<and> fuzzyMatch (denom b) key \<and>
       exponentOf info = Some e \<and> 0 < e \<and>
       snd (balanceExponent st b) =
         st\<lparr>denomExponentMap := map_set (denom b) e (denomExponentMap st)\<rparr>)"
proof (cases "map_of (denomExponentMap st) (denom b)")
  case (Some e)
  then show ?thesis by (simp add: balanceExponent_hit)
next
  case None
  from fuzzyLoop_cases [of "denom b" "assetInfoMap st" None "denomExponentMap st"]
  show ?thesis
  proof
    assume "snd (fuzzyLoop (denom b) (assetInfoMap st) None (denomExponentMap st)) =
      denomExponentMap st"
    then have "snd (balanceExponent st b) = st"
      by (simp add: balanceExponent_miss [OF None])
    then show ?thesis ..
  next
    assume "\<exists>key info e. (key, info) \<in> set (assetInfoMap st) \<and> fuzzyMatch (denom b) key \<and>
       exponentOf info = Some e \<and> 0 < e \<and>
       fuzzyLoop (denom b) (assetInfoMap st) None (denomExponentMap st) =
         (Some e, map_set (denom b) e (denomExponentMap st))"
    then obtain key info e where k: "(key, info) \<in> set (assetInfoMap st)"
      "fuzzyMatch (denom b) key" "exponentOf info = Some e" "0 < e"
      and f: "fuzzyLoop (denom b) (assetInfoMap st) None (denomExponentMap st) =
         (Some e, map_set (denom b) e (denomExponentMap st))" by blast
    have "snd (balanceExponent st b) =
         st\<lparr>denomExponentMap := map_set (denom b) e (denomExponentMap st)\<rparr>"
      by (simp add: balanceExponent_miss [OF None] f)
    with k show ?thesis by blast
  qed
qed

lemma balanceExponent_positive:
  assumes "positive_exponents (denomExponentMap st)"
  shows "positive_exponents (denomExponentMap (snd (balanceExponent st b)))"
  using balanceExponent_cache [of st b] assms
  by (auto simp: positive_map_set)

lemma ingestAssetInfo_positive: "positive_exponents (denomExponentMap (ingestAssetInfo entries))"
  unfolding ingestAssetInfo_def
  by (rule ingestEntries_positive) (simp add: positive_exponents_def)

text \<open>
  Claim C10, as stated, fails in its last part. An asset whose first defined field is
  \<open>- 6\<close> gets no entry in the exponent map, but it is not treated as having no exponent:
  \<open>formatSubaccountAsset\<close> falls back to the metadata record and \<open>formatBalance\<close> keeps
  the value of the matching entry, so \<open>- 6\<close> is the exponent handed to the conversion.
\<close>

theorem exponent_map_counterexample:
  "exponentOf usdc_atomic = Some (- 6) \<and>
   map_of (denomExponentMap (ingestAssetInfo [(''USDC'', usdc_atomic)])) ''USDC'' = None \<and>
   positionExponent (ingestAssetInfo [(''USDC'', usdc_atomic)]) ''USDC'' = Some (- 6) \<and>
   fst (balanceExponent (ingestAssetInfo [(''USDC'', usdc_atomic)])
          \<lparr>denom = ''USDC'', amount = ''1500000''\<rparr>) = Some (- 6)"
  by code_simp

text \<open>
  Claim C10, amended. The exponent map holds positive exponents only: after the
  ingestion, and after every call of \<open>formatBalance\<close> on a map that held only positive
  exponents. An asset whose first defined field is zero or negative gets no entry at the
  ingestion, and \<open>formatBalance\<close> either leaves the map as it was or stores, under the
  denom, the positive exponent of a matching entry.
\<close>

theorem exponent_map_positive:
  "positive_exponents (denomExponentMap (ingestAssetInfo entries))
   \<and> (positive_exponents (denomExponentMap st) \<longrightarrow>
        positive_exponents (denomExponentMap (snd (formatBalance U st b))))
   \<and> (distinct (map fst entries) \<and> map_of entries key = Some info \<and>
       exponentOf info = Some e \<and> e \<le> 0 \<longrightarrow>
        map_of (denomExponentMap (ingestAssetInfo entries)) key = None)
   \<and> (snd (formatBalance U st b) = st \<or>
       (\<exists>k i x. (k, i) \<in> set (assetInfoMap st) \<and> fuzzyMatch (denom b) k \<and>
          exponentOf i = Some x \<and> 0 < x \<and>
          snd (formatBalance U st b) =
            st\<lparr>denomExponentMap := map_set (denom b) x (denomExponentMap st)\<rparr>))"
proof -
  have a: "positive_exponents (denomExponentMap (ingestAssetInfo entries))"
    by (rule ingestAssetInfo_positive)
  have b: "positive_exponents (denomExponentMap st) \<longrightarrow>
        positive_exponents (denomExponentMap (snd (formatBalance U st b)))"
    by (simp add: snd_formatBalance balanceExponent_positive)
  have c: "distinct (map fst entries) \<and> map_of entries key = Some info \<and>
       exponentOf info = Some e \<and> e \<le> 0 \<longrightarrow>
        map_of (denomExponentMap (ingestAssetInfo entries)) key = None"
    by (simp add: ingestAssetInfo_entry)
  have d: "snd (formatBalance U st b) = st \<or>
       (\<exists>k i x. (k, i) \<in> set (assetInfoMap st) \<and> fuzzyMatch (denom b) k \<and>
          exponentOf i = Some x \<and> 0 < x \<and>
          snd (formatBalance U st b) =
            st\<lparr>denomExponentMap := map_set (denom b) x (denomExponentMap st)\<rparr>)"
    unfolding snd_formatBalance by (rule balanceExponent_cache)
  show ?thesis by (rule conjI [OF a conjI [OF b conjI [OF c d]]])
qed

theorem exponent_map_positive_witness:
  "positive_exponents (denomExponentMap (ingestAssetInfo [(''USD'', usd_info), (''USDC'', usdc_info)])) \<and>
   distinct (map fst [(''USDC'', usdc_atomic), (''USD'', usd_info)]) \<and>
   map_of [(''USDC'', usdc_atomic), (''USD'', usd_info)] ''USDC'' = Some usdc_atomic \<and>
   exponentOf usdc_atomic = Some (- 6) \<and> (- 6 :: int) \<le> 0 \<and>
   positive_exponents (denomExponentMap (snd (formatBalance plain_utils
       (ingestAssetInfo [(''USD'', usd_info), (''USDC'', usdc_info)])
       \<lparr>denom = ''uusdc'', amount = ''1500000''\<rparr>))) \<and>
   map_of (denomExponentMap (ingestAssetInfo [(''USDC'', usdc_atomic), (''USD'', usd_info)]))
     ''USDC'' = None"
proof -
  have h: "positive_exponents (denomExponentMap (ingestAssetInfo [(''USD'', usd_info), (''USDC'', usdc_info)])) \<and>
     distinct (map fst [(''USDC'', usdc_atomic), (''USD'', usd_info)]) \<and>
     map_of [(''USDC'', usdc_atomic), (''USD'', usd_info)] ''USDC'' = Some usdc_atomic \<and>
     exponentOf usdc_atomic = Some (- 6) \<and> (- 6 :: int) \<le> 0"
    by code_simp
  show ?thesis
    using h exponent_map_positive [of "[(''USDC'', usdc_atomic), (''USD'', usd_info)]"
        "ingestAssetInfo [(''USD'', usd_info), (''USDC'', usdc_info)]" plain_utils
        "\<lparr>denom = ''uusdc'', amount = ''1500000''\<rparr>" "''USDC''" usdc_atomic "- 6"]
    by blast
qed

text \<open>
  Claim C2, as stated, fails: the first symbol that matches \<open>uusdc\<close> is \<open>USD\<close>, whose
  exponent is 0; the loop does not stop there, and the exponent used is the 6 of \<open>USDC\<close>.
\<close>

theorem fuzzy_first_match_counterexample:
  "map_of (denomExponentMap (ingestAssetInfo [(''USD'', usd_info), (''USDC'', usdc_info)])) ''uusdc'' = None \<and>
   find (\<lambda>(key, info). fuzzyMatch ''uusdc'' key)
     (assetInfoMap (ingestAssetInfo [(''USD'', usd_info), (''USDC'', usdc_info)])) =
     Some (''USD'', usd_info) \<and>
   exponentOf usd_info = Some 0 \<and>
   fst (balanceExponent (ingestAssetInfo [(''USD'', usd_info), (''USDC'', usdc_info)])
          \<lparr>denom = ''uusdc'', amount = ''1500000''\<rparr>) = Some 6"
  by code_simp

text \<open>
  Claim C2, amended. When the denom has no entry in the exponent map, the loop runs over
  the metadata map in insertion order and accepts the first symbol that matches (equal,
  or one containing the other, after lowercasing) and whose exponent is defined and
  positive; that exponent is used and stored under the denom. When no symbol matches, no
  exponent is found and nothing is stored. When the denom has an entry, that entry is
  used.
\<close>

theorem fuzzy_first_usable_match:
  "(map_of (denomExponentMap st) (denom b) = None \<and>
    find (\<lambda>(key, info). fuzzyMatch (denom b) key \<and> usableExponent info) (assetInfoMap st) =
      Some (key, info) \<longrightarrow>
      fb_exponent (fst (formatBalance U st b)) = exponentOf info \<and>
      (\<exists>e. exponentOf info = Some e \<and> 0 < e \<and>
           snd (formatBalance U st b) =
             st\<lparr>denomExponentMap := map_set (denom b) e (denomExponentMap st)\<rparr>))
   \<and> (map_of (denomExponentMap st') (denom b') = None \<and>
       find (\<lambda>(key, info). fuzzyMatch (denom b') key) (assetInfoMap st') = None \<longrightarrow>
      fb_exponent (fst (formatBalance U st' b')) = None \<and> snd (formatBalance U st' b') = st')
   \<and> (map_of (denomExponentMap st'') (denom b'') = Some x \<longrightarrow>
      fb_exponent (fst (formatBalance U st'' b'')) = Some x \<and>
      snd (formatBalance U st'' b'') = st'')"
proof -
  have usable: "map_of (denomExponentMap st) (denom b) = None \<and>
    find (\<lambda>(key, info). fuzzyMatch (denom b) key \<and> usableExponent info) (assetInfoMap st) =
      Some (key, info) \<longrightarrow>
      fb_exponent (fst (formatBalance U st b)) = exponentOf info \<and>
      (\<exists>e. exponentOf info = Some e \<and> 0 < e \<and>
           snd (formatBalance U st b) =
             st\<lparr>denomExponentMap := map_set (denom b) e (denomExponentMap st)\<rparr>)"
  proof
    assume h: "map_of (denomExponentMap st) (denom b) = None \<and>
      find (\<lambda>(key, info). fuzzyMatch (denom b) key \<and> usableExponent info) (assetInfoMap st) =
        Some (key, info)"
    then have miss: "map_of (denomExponentMap st) (denom b) = None"
      and f: "find (\<lambda>(key, info). fuzzyMatch (denom b) key \<and> usableExponent info)
        (assetInfoMap st) = Some (key, info)" by simp_all
    from fuzzyLoop_first_usable [OF f, of None "denomExponentMap st"]
    obtain e where e: "exponentOf info = Some e" "0 < e"
      and l: "fuzzyLoop (denom b) (assetInfoMap st) None (denomExponentMap st) =
        (Some e, map_set (denom b) e (denomExponentMap st))" by blast
    have "balanceExponent st b =
        (Some e, st\<lparr>denomExponentMap := map_set (denom b) e (denomExponentMap st)\<rparr>)"
      by (simp add: balanceExponent_miss [OF miss] l)
    then show "fb_exponent (fst (formatBalance U st b)) = exponentOf info \<and>
      (\<exists>e. exponentOf info = Some e \<and> 0 < e \<and>
           snd (formatBalance U st b) =
             st\<lparr>denomExponentMap := map_set (denom b) e (denomExponentMap st)\<rparr>)"
      using e by (simp add: fb_exponent_formatBalance snd_formatBalance)
  qed
  have nomatch: "map_of (denomExponentMap st') (denom b') = None \<and>
       find (\<lambda>(key, info). fuzzyMatch (denom b') key) (assetInfoMap st') = None \<longrightarrow>
      fb_exponent (fst (formatBalance U st' b')) = None \<and> snd (formatBalance U st' b') = st'"
    by (simp add: fb_exponent_formatBalance snd_formatBalance balanceExponent_miss
        fuzzyLoop_no_match)
  have exact: "map_of (denomExponentMap st'') (denom b'') = Some x \<longrightarrow>
      fb_exponent (fst (formatBalance U st'' b'')) = Some x \<and>
      snd (formatBalance U st'' b'') = st''"
    by (simp add: fb_exponent_formatBalance snd_formatBalance balanceExponent_hit)
  show ?thesis by (rule conjI [OF usable conjI [OF nomatch exact]])
qed

theorem fuzzy_first_usable_match_witness:
  "map_of (denomExponentMap (ingestAssetInfo [(''USD'', usd_info), (''USDC'', usdc_info)])) ''uusdc'' = None \<and>
   find (\<lambda>(key, info). fuzzyMatch ''uusdc'' key \<and> usableExponent info)
     (assetInfoMap (ingestAssetInfo [(''USD'', usd_info), (''USDC'', usdc_info)])) =
     Some (''USDC'', usdc_info) \<and>
   map_of (denomExponentMap (ingestAssetInfo [(''USD'', usd_info), (''USDC'', usdc_info)])) ''adydx'' = None \<and>
   find (\<lambda>(key, info). fuzzyMatch ''adydx'' key)
     (assetInfoMap (ingestAssetInfo [(''USD'', usd_info), (''USDC'', usdc_info)])) = None \<and>
   map_of (denomExponentMap (ingestAssetInfo [(''USD'', usd_info), (''USDC'', usdc_info)])) ''USDC'' = Some 6 \<and>
   fb_exponent (fst (formatBalance plain_utils
       (ingestAssetInfo [(''USD'', usd_info), (''USDC'', usdc_info)])
       \<lparr>denom = ''uusdc'', amount = ''1500000''\<rparr>)) = Some 6 \<and>
   fb_exponent (fst (formatBalance plain_utils
       (ingestAssetInfo [(''USD'', usd_info), (''USDC'', usdc_info)])
       \<lparr>denom = ''adydx'', amount = ''7''\<rparr>)) = None \<and>
   fb_exponent (fst (formatBalance plain_utils
       (ingestAssetInfo [(''USD'', usd_info), (''USDC'', usdc_info)])
       \<lparr>denom = ''USDC'', amount = ''7''\<rparr>)) = Some 6"
proof -
  have h: "map_of (denomExponentMap (ingestAssetInfo [(''USD'', usd_info), (''USDC'', usdc_info)])) ''uusdc'' = None \<and>
     find (\<lambda>(key, info). fuzzyMatch ''uusdc'' key \<and> usableExponent info)
       (assetInfoMap (ingestAssetInfo [(''USD'', usd_info), (''USDC'', usdc_info)])) =
       Some (''USDC'', usdc_info) \<and>
     map_of (denomExponentMap (ingestAssetInfo [(''USD'', usd_info), (''USDC'', usdc_info)])) ''adydx'' = None \<and>
     find (\<lambda>(key, info). fuzzyMatch ''adydx'' key)
       (assetInfoMap (ingestAssetInfo [(''USD'', usd_info), (''USDC'', usdc_info)])) = None \<and>
     map_of (denomExponentMap (ingestAssetInfo [(''USD'', usd_info), (''USDC'', usdc_info)])) ''USDC'' = Some 6 \<and>
     exponentOf usdc_info = Some 6"
    by code_simp
  show ?thesis
    using h fuzzy_first_usable_match [of
        "ingestAssetInfo [(''USD'', usd_info), (''USDC'', usdc_info)]"
        "\<lparr>denom = ''uusdc'', amount = ''1500000''\<rparr>" "''USDC''" usdc_info plain_utils
        "ingestAssetInfo [(''USD'', usd_info), (''USDC'', usdc_info)]"
        "\<lparr>denom = ''adydx'', amount = ''7''\<rparr>"
        "ingestAssetInfo [(''USD'', usd_info), (''USDC'', usdc_info)]"
        "\<lparr>denom = ''USDC'', amount = ''7''\<rparr>" 6]
    by simp
qed

lemma balanceExponent_map:
  "denomExponentMap (snd (balanceExponent st b)) = denomExponentMap st \<or>
   (map_of (denomExponentMap st) (denom b) = None \<and>
    (\<exists>e. denomExponentMap (snd (balanceExponent st b)) =
           map_set (denom b) e (denomExponentMap st)))"
proof (cases "map_of (denomExponentMap st) (denom b)")
  case (Some e)
  then show ?thesis by (simp add: balanceExponent_hit)
next
  case None
  from fuzzyLoop_cases [of "denom b" "assetInfoMap st" None "denomExponentMap st"]
  show ?thesis
    by (auto simp: balanceExponent_miss [OF None] None)
qed

lemma balanceExponent_assetInfoMap:
  "assetInfoMap (snd (balanceExponent st b)) = assetInfoMap st"
  by (cases "map_of (denomExponentMap st) (denom b)")
     (simp_all add: balanceExponent_hit balanceExponent_miss)

lemma balanceExponent_keeps:
  "map_of (denomExponentMap st) k = Some e \<Longrightarrow>
     map_of (denomExponentMap (snd (balanceExponent st b))) k = Some e"
  using balanceExponent_map [of st b] by (auto simp: map_of_map_set)

lemma balanceExponent_other:
  "k \<noteq> denom b \<Longrightarrow>
     map_of (denomExponentMap (snd (balanceExponent st b))) k = map_of (denomExponentMap st) k"
  using balanceExponent_map [of st b] by (auto simp: map_of_map_set)

lemma formatBalances_assetInfoMap:
  "assetInfoMap (formatBalances U st bs) = assetInfoMap st"
  by (induction bs arbitrary: st) (simp_all add: snd_formatBalance balanceExponent_assetInfoMap)

lemma formatBalances_keeps:
  "map_of (denomExponentMap st) k = Some e \<Longrightarrow>
     map_of (denomExponentMap (formatBalances U st bs)) k = Some e"
  by (induction bs arbitrary: st) (simp_all add: snd_formatBalance balanceExponent_keeps)

lemma formatBalances_other:
  "k \<notin> set (map denom bs) \<Longrightarrow>
     map_of (denomExponentMap (formatBalances U st bs)) k = map_of (denomExponentMap st) k"
  by (induction bs arbitrary: st) (simp_all add: snd_formatBalance balanceExponent_other)

text \<open>
  Claim C1, as stated, fails on a state that the page reaches. The record of \<open>USDC\<close>
  defines \<open>atomicResolution\<close> as \<open>- 6\<close>, which is not stored at the ingestion. A balance
  of denom \<open>USDC\<close> is formatted first: the loop skips \<open>USDC\<close>, accepts \<open>USDCX\<close> and
  stores its exponent 8 under \<open>USDC\<close>. \<open>formatSubaccountAsset\<close> then takes the entry of
  the map, 8, and not \<open>- 6\<close>.
\<close>

theorem precedence_cache_counterexample:
  "map_of [(''USDC'', usdc_atomic), (''USDCX'', usdcx_info)] ''USDC'' = Some usdc_atomic \<and>
   atomicResolution usdc_atomic = Some (- 6) \<and>
   sa_exponent (formatSubaccountAsset plain_utils
       (snd (formatBalance plain_utils
          (ingestAssetInfo [(''USDC'', usdc_atomic), (''USDCX'', usdcx_info)])
          \<lparr>denom = ''USDC'', amount = ''1500000''\<rparr>))
       \<lparr>ap_symbol = ''USDC'', side = LONG, ap_size = Some ''1500000'', assetId = ''0'',
         subaccountNumber = Some 0\<rparr>) = Some 8"
  by code_simp

text \<open>
  Claim C1, amended. For an asset of the metadata response, whatever balances have been
  formatted since the ingestion, the exponent that \<open>formatSubaccountAsset\<close> resolves is
  the first defined field in the order \<open>atomicResolution\<close>, \<open>denomExponent\<close>,
  \<open>decimals\<close> when that value is positive, and also when it is not, as long as no
  formatted balance has the symbol of the asset as its denom. An entry of the exponent
  map under the symbol comes before the metadata record. The keys of the response are
  those of a JSON object, hence distinct.
\<close>

theorem precedence_fixed_order:
  assumes "distinct (map fst entries)"
  shows "(map_of entries (ap_symbol position) = Some info \<and> usableExponent info \<longrightarrow>
      sa_exponent (formatSubaccountAsset U (formatBalances U (ingestAssetInfo entries) bs)
          position) =
        (case atomicResolution info of
           Some a \<Rightarrow> Some a
         | None \<Rightarrow> (case denomExponent info of Some d \<Rightarrow> Some d | None \<Rightarrow> decimals info)))
   \<and> (map_of entries (ap_symbol position') = Some info' \<and>
       ap_symbol position' \<notin> set (map denom bs') \<longrightarrow>
      sa_exponent (formatSubaccountAsset U (formatBalances U (ingestAssetInfo entries) bs')
          position') =
        (case atomicResolution info' of
           Some a \<Rightarrow> Some a
         | None \<Rightarrow> (case denomExponent info' of Some d \<Rightarrow> Some d | None \<Rightarrow> decimals info')))
   \<and> (map_of (denomExponentMap st) (ap_symbol position'') = Some e \<longrightarrow>
      sa_exponent (formatSubaccountAsset U st position'') = Some e)"
proof -
  have usable: "map_of entries (ap_symbol position) = Some info \<and> usableExponent info \<longrightarrow>
      sa_exponent (formatSubaccountAsset U (formatBalances U (ingestAssetInfo entries) bs)
          position) = exponentOf info"
  proof
    assume h: "map_of entries (ap_symbol position) = Some info \<and> usableExponent info"
    then obtain x where x: "exponentOf info = Some x" "0 < x"
      by (auto simp: usableExponent_def split: option.splits)
    from h have m: "map_of entries (ap_symbol position) = Some info" by simp
    have "map_of (denomExponentMap (ingestAssetInfo entries)) (ap_symbol position) = Some x"
      using x by (simp add: ingestAssetInfo_entry [OF assms m])
    then have "map_of (denomExponentMap (formatBalances U (ingestAssetInfo entries) bs))
        (ap_symbol position) = Some x"
      by (rule formatBalances_keeps)
    then show "sa_exponent (formatSubaccountAsset U
        (formatBalances U (ingestAssetInfo entries) bs) position) = exponentOf info"
      using x by (simp add: sa_exponent_formatSubaccountAsset positionExponent_def)
  qed
  have absent: "map_of entries (ap_symbol position') = Some info' \<and>
       ap_symbol position' \<notin> set (map denom bs') \<longrightarrow>
      sa_exponent (formatSubaccountAsset U (formatBalances U (ingestAssetInfo entries) bs')
          position') = exponentOf info'"
  proof
    assume h: "map_of entries (ap_symbol position') = Some info' \<and>
       ap_symbol position' \<notin> set (map denom bs')"
    then have m: "map_of entries (ap_symbol position') = Some info'"
      and n: "ap_symbol position' \<notin> set (map denom bs')" by simp_all
    have "positionExponent (formatBalances U (ingestAssetInfo entries) bs') (ap_symbol position')
        = exponentOf info'"
      by (simp add: positionExponent_def formatBalances_other [OF n]
          formatBalances_assetInfoMap ingestAssetInfo_entry [OF assms m] split: option.splits)
    then show "sa_exponent (formatSubaccountAsset U
        (formatBalances U (ingestAssetInfo entries) bs') position') = exponentOf info'"
      by (simp add: sa_exponent_formatSubaccountAsset)
  qed
  have cached: "map_of (denomExponentMap st) (ap_symbol position'') = Some e \<longrightarrow>
      sa_exponent (formatSubaccountAsset U st position'') = Some e"
    by (simp add: sa_exponent_formatSubaccountAsset positionExponent_def)
  show ?thesis
    using usable absent cached
    by (simp only: exponentOf_first_defined [symmetric]) 
qed

theorem precedence_fixed_order_witness:
  "distinct (map fst [(''USDC'', usdc_atomic), (''USDCX'', usdcx_info)]) \<and>
   map_of [(''USDC'', usdc_atomic), (''USDCX'', usdcx_info)] ''USDCX'' = Some usdcx_info \<and>
   usableExponent usdcx_info \<and>
   map_of [(''USDC'', usdc_atomic), (''USDCX'', usdcx_info)] ''USDC'' = Some usdc_atomic \<and>
   ''USDC'' \<notin> set (map denom [\<lparr>denom = ''USDCX2'', amount = ''7''\<rparr>]) \<and>
   map_of (denomExponentMap (snd (formatBalance plain_utils
       (ingestAssetInfo [(''USDC'', usdc_atomic), (''USDCX'', usdcx_info)])
       \<lparr>denom = ''USDC'', amount = ''1500000''\<rparr>))) ''USDC'' = Some 8 \<and>
   sa_exponent (formatSubaccountAsset plain_utils
       (formatBalances plain_utils
          (ingestAssetInfo [(''USDC'', usdc_atomic), (''USDCX'', usdcx_info)])
          [\<lparr>denom = ''USDC'', amount = ''1500000''\<rparr>])
       \<lparr>ap_symbol = ''USDCX'', side = LONG, ap_size = Some ''5'', assetId = ''1'',
         subaccountNumber = Some 0\<rparr>) = Some 8 \<and>
   sa_exponent (formatSubaccountAsset plain_utils
       (formatBalances plain_utils
          (ingestAssetInfo [(''USDC'', usdc_atomic), (''USDCX'', usdcx_info)])
          [\<lparr>denom = ''USDCX2'', amount = ''7''\<rparr>])
       \<lparr>ap_symbol = ''USDC'', side = LONG, ap_size = Some ''1500000'', assetId = ''0'',
         subaccountNumber = Some 0\<rparr>) = Some (- 6)"
proof -
  have d: "distinct (map fst [(''USDC'', usdc_atomic), (''USDCX'', usdcx_info)])" by simp
  have h: "map_of [(''USDC'', usdc_atomic), (''USDCX'', usdcx_info)] ''USDCX'' = Some usdcx_info \<and>
     usableExponent usdcx_info \<and>
     map_of [(''USDC'', usdc_atomic), (''USDCX'', usdcx_info)] ''USDC'' = Some usdc_atomic \<and>
     ''USDC'' \<notin> set (map denom [\<lparr>denom = ''USDCX2'', amount = ''7''\<rparr>]) \<and>
     map_of (denomExponentMap (snd (formatBalance plain_utils
         (ingestAssetInfo [(''USDC'', usdc_atomic), (''USDCX'', usdcx_info)])
         \<lparr>denom = ''USDC'', amount = ''1500000''\<rparr>))) ''USDC'' = Some 8"
    by code_simp
  have v: "atomicResolution usdcx_info = None \<and> denomExponent usdcx_info = None \<and>
     decimals usdcx_info = Some 8 \<and> atomicResolution usdc_atomic = Some (- 6)"
    by (simp add: usdcx_info_def usdc_atomic_def)
  show ?thesis
    using d h v precedence_fixed_order [OF d, where
        position = "\<lparr>ap_symbol = ''USDCX'', side = LONG, ap_size = Some ''5'', assetId = ''1'',
          subaccountNumber = Some 0\<rparr>"
        and info = usdcx_info and U = plain_utils
        and bs = "[\<lparr>denom = ''USDC'', amount = ''1500000''\<rparr>]"
        and position' = "\<lparr>ap_symbol = ''USDC'', side = LONG, ap_size = Some ''1500000'',
          assetId = ''0'', subaccountNumber = Some 0\<rparr>"
        and info' = usdc_atomic and bs' = "[\<lparr>denom = ''USDCX2'', amount = ''7''\<rparr>]"
        and st = "snd (formatBalance plain_utils
          (ingestAssetInfo [(''USDC'', usdc_atomic), (''USDCX'', usdcx_info)])
          \<lparr>denom = ''USDC'', amount = ''1500000''\<rparr>)"
        and position'' = "\<lparr>ap_symbol = ''USDC'', side = LONG, ap_size = Some ''1500000'',
          assetId = ''0'', subaccountNumber = Some 0\<rparr>"
        and e = 8]
    by simp
qed

section \<open>Properties of the transaction decoding\<close>

lemma decodeMessages_map_filter:
  "decodeMessages C ms acc = acc @ List.map_filter (decodableMsg C) ms"
  by (induction ms arbitrary: acc)
     (auto simp: List.map_filter_simps decodableMsg_def split: sum.splits)

lemma decodeTransactions_map_filter:
  "decodeTransactions C ts acc = acc @ List.map_filter (decodableTx C) ts"
  by (induction ts arbitrary: acc)
     (auto simp: List.map_filter_simps decodableTx_def decodeMessages_map_filter split: sum.splits)

lemma fst_decodableTx: "decodableTx C t = Some p \<Longrightarrow> fst p = t \<and> (\<exists>d. tx_decode C (tx t) = Inr d)"
  by (auto simp: decodableTx_def split: sum.splits)

lemma effectTransactions_decoded:
  "transactions st \<noteq> [] \<Longrightarrow>
     decodedTxs (effectTransactions C st) = List.map_filter (decodableTx C) (transactions st)"
  by (simp add: effectTransactions_def decodeTransactions_map_filter)

lemma effectTransactions_raw: "transactions (effectTransactions C st) = transactions st"
  by (simp add: effectTransactions_def)

lemma failed_envelope_dropped:
  assumes "tx_decode C (tx t) = Inl err"
  shows "t \<notin> fst ` set (List.map_filter (decodableTx C) ts)"
proof
  assume "t \<in> fst ` set (List.map_filter (decodableTx C) ts)"
  then obtain p u where "decodableTx C u = Some p" "fst p = t"
    by (auto simp: List.map_filter_def)
  then have "\<exists>d. tx_decode C (tx t) = Inr d"
    using fst_decodableTx by blast
  with assms show False by simp
qed

text \<open>
  Claim C8. When there are fetched transactions, the decoded set holds, in order, the
  transactions whose envelope decodes, each with the messages that decode, in order; the
  raw list is unchanged. One undecodable message among two leaves a list of length 1,
  and a transaction whose envelope fails is absent from the decoded set and still in
  the raw list.
\<close>

theorem decoding_partial_results:
  "(transactions st \<noteq> [] \<longrightarrow>
      decodedTxs (effectTransactions C st) = List.map_filter (decodableTx C) (transactions st) \<and>
      transactions (effectTransactions C st) = transactions st)
   \<and> (tx_decode C (tx t) = Inr txData \<and> bodyMessages txData = [m1, m2] \<and>
       decodeMsg C (typeUrl m1) (any_value m1) = Inl err \<and>
       decodeMsg C (typeUrl m2) (any_value m2) = Inr msg \<longrightarrow>
      decodedTxs (effectTransactions C \<lparr>transactions = [t], decodedTxs = old\<rparr>) = [(t, [msg])])
   \<and> (transactions st \<noteq> [] \<and> t' \<in> set (transactions st) \<and> tx_decode C (tx t') = Inl err' \<longrightarrow>
      t' \<notin> fst ` set (decodedTxs (effectTransactions C st)) \<and>
      t' \<in> set (transactions (effectTransactions C st)))"
proof -
  have whole: "transactions st \<noteq> [] \<longrightarrow>
      decodedTxs (effectTransactions C st) = List.map_filter (decodableTx C) (transactions st) \<and>
      transactions (effectTransactions C st) = transactions st"
    by (simp add: effectTransactions_decoded effectTransactions_raw)
  have two: "tx_decode C (tx t) = Inr txData \<and> bodyMessages txData = [m1, m2] \<and>
       decodeMsg C (typeUrl m1) (any_value m1) = Inl err \<and>
       decodeMsg C (typeUrl m2) (any_value m2) = Inr msg \<longrightarrow>
      decodedTxs (effectTransactions C \<lparr>transactions = [t], decodedTxs = old\<rparr>) = [(t, [msg])]"
    by (simp add: effectTransactions_def)
  have envelope: "transactions st \<noteq> [] \<and> t' \<in> set (transactions st) \<and>
       tx_decode C (tx t') = Inl err' \<longrightarrow>
      t' \<notin> fst ` set (decodedTxs (effectTransactions C st)) \<and>
      t' \<in> set (transactions (effectTransactions C st))"
    by (simp add: effectTransactions_decoded effectTransactions_raw failed_envelope_dropped)
  show ?thesis by (rule conjI [OF whole conjI [OF two envelope]])
qed

theorem decoding_partial_results_witness:
  "transactions \<lparr>transactions = sample_txs, decodedTxs = []\<rparr> \<noteq> [] \<and>
   tx_decode sample_codec (tx (hd sample_txs)) =
     Inr \<lparr>body = Some \<lparr>messages = [\<lparr>typeUrl = ''/m'', any_value = [0]\<rparr>,
                                   \<lparr>typeUrl = ''/m'', any_value = [7]\<rparr>]\<rparr>\<rparr> \<and>
   decodeMsg sample_codec ''/m'' [0] = Inl (DecodeError ''unknown'') \<and>
   decodeMsg sample_codec ''/m'' [7] = Inr [7] \<and>
   last sample_txs \<in> set sample_txs \<and>
   tx_decode sample_codec (tx (last sample_txs)) = Inl (DecodeError ''empty'') \<and>
   decodedTxs (effectTransactions sample_codec \<lparr>transactions = sample_txs, decodedTxs = []\<rparr>) =
     [(hd sample_txs, [ [7] ])] \<and>
   decodedTxs (effectTransactions sample_codec \<lparr>transactions = [hd sample_txs], decodedTxs = []\<rparr>) =
     [(hd sample_txs, [ [7] ])] \<and>
   last sample_txs \<notin> fst ` set (decodedTxs
     (effectTransactions sample_codec \<lparr>transactions = sample_txs, decodedTxs = []\<rparr>))"
proof -
  have h: "transactions \<lparr>transactions = sample_txs, decodedTxs = []\<rparr> \<noteq> [] \<and>
     tx_decode sample_codec (tx (hd sample_txs)) =
       Inr \<lparr>body = Some \<lparr>messages = [\<lparr>typeUrl = ''/m'', any_value = [0]\<rparr>,
                                     \<lparr>typeUrl = ''/m'', any_value = [7]\<rparr>]\<rparr>\<rparr> \<and>
     bodyMessages \<lparr>body = Some \<lparr>messages = [\<lparr>typeUrl = ''/m'', any_value = [0]\<rparr>,
                                     \<lparr>typeUrl = ''/m'', any_value = [7]\<rparr>]\<rparr>\<rparr> =
       [\<lparr>typeUrl = ''/m'', any_value = [0]\<rparr>, \<lparr>typeUrl = ''/m'', any_value = [7]\<rparr>] \<and>
     decodeMsg sample_codec ''/m'' [0] = Inl (DecodeError ''unknown'') \<and>
     decodeMsg sample_codec ''/m'' [7] = Inr [7] \<and>
     last sample_txs \<in> set sample_txs \<and>
     tx_decode sample_codec (tx (last sample_txs)) = Inl (DecodeError ''empty'')"
    by (simp add: sample_txs_def sample_codec_def bodyMessages_def)
  have v: "List.map_filter (decodableTx sample_codec) sample_txs = [(hd sample_txs, [ [7] ])]"
    by (simp add: sample_txs_def sample_codec_def bodyMessages_def List.map_filter_simps
        decodableTx_def decodableMsg_def)
  show ?thesis
    using h v decoding_partial_results [of "\<lparr>transactions = sample_txs, decodedTxs = []\<rparr>"
        sample_codec "hd sample_txs"
        "\<lparr>body = Some \<lparr>messages = [\<lparr>typeUrl = ''/m'', any_value = [0]\<rparr>,
                                   \<lparr>typeUrl = ''/m'', any_value = [7]\<rparr>]\<rparr>\<rparr>"
        "\<lparr>typeUrl = ''/m'', any_value = [0]\<rparr>" "\<lparr>typeUrl = ''/m'', any_value = [7]\<rparr>"
        "DecodeError ''unknown''" "[7]" "[]" "last sample_txs" "DecodeError ''empty''"]
    by (simp add: sample_txs_def)
qed

section \<open>Properties of the indexer and metadata clients\<close>

lemma getParentSubaccount_failed:
  "failed r \<Longrightarrow> getParentSubaccount addr n r = Inr (emptyParentSubaccount addr n)"
  by (cases r) (simp_all add: failed_def getParentSubaccount_def try_catch_def split: option.splits)

lemma getParentSubaccount_returns: "\<exists>v. getParentSubaccount addr n r = Inr v"
  by (simp add: getParentSubaccount_def)

lemma getSubaccounts_returns: "\<exists>v. getSubaccounts addr r = Inr v"
  by (simp add: getSubaccounts_def)

lemma getSubaccounts_failed:
  "failed r \<Longrightarrow> getSubaccounts addr r = Inr \<lparr>subaccounts = []\<rparr>"
  by (simp add: getSubaccounts_def getParentSubaccount_failed try_catch_def
      emptyParentSubaccount_def)

lemma getAllSubaccountAssets_failed:
  "failed r \<Longrightarrow> getAllSubaccountAssets addr n r = Inr []"
  by (simp add: getAllSubaccountAssets_def getParentSubaccount_failed try_catch_def
      emptyParentSubaccount_def)

lemma getSubaccountAssetPositions_failed:
  "failed r \<Longrightarrow> getSubaccountAssetPositions addr n r = Inr \<lparr>positions = []\<rparr>"
  by (cases r) (simp_all add: failed_def getSubaccountAssetPositions_def try_catch_def)

lemma getAssetInfo_failed: "failed r \<Longrightarrow> getAssetInfo assets r = Inr []"
  by (cases r) (simp_all add: failed_def getAssetInfo_def try_catch_def)

lemma getAssetPrices_failed: "failed r \<Longrightarrow> getAssetPrices assets r = Inr []"
  by (cases r) (simp_all add: failed_def getAssetPrices_def try_catch_def)

text \<open>
  The failures that the handlers catch. A 404 of the indexer gives the empty subaccount
  or position result, and a rejected request or a response outside the 2xx range makes
  every indexer and metadata query return its empty result: no child subaccounts, no
  positions, no entries of the symbol mapping. The two subaccount queries never throw at
  all.
\<close>

theorem collaborator_failures_degrade:
  "(failed r \<longrightarrow>
      getParentSubaccount addr n r = Inr (emptyParentSubaccount addr n) \<and>
      getSubaccounts addr r = Inr \<lparr>subaccounts = []\<rparr> \<and>
      getAllSubaccountAssets addr n r = Inr [])
   \<and> (failed rp \<longrightarrow> getSubaccountAssetPositions addr n rp = Inr \<lparr>positions = []\<rparr>)
   \<and> (failed ri \<longrightarrow> getAssetInfo assets ri = Inr [])
   \<and> (failed rq \<longrightarrow> getAssetPrices assets rq = Inr [])
   \<and> getParentSubaccount addr n (Response 404 text errorText data) =
        Inr (emptyParentSubaccount addr n)
   \<and> getSubaccountAssetPositions addr n (Response 404 text errorText data') =
        Inr \<lparr>positions = []\<rparr>
   \<and> (\<exists>v. getParentSubaccount addr n q = Inr v)
   \<and> (\<exists>v. getSubaccounts addr q = Inr v)"
proof -
  have nf: "failed (Response 404 text errorText data)"
    and nf': "failed (Response 404 text errorText data')"
    by (simp_all add: failed_def response_ok_def)
  show ?thesis
    by (simp add: getParentSubaccount_failed getSubaccounts_failed
        getAllSubaccountAssets_failed getSubaccountAssetPositions_failed getAssetInfo_failed
        getAssetPrices_failed getParentSubaccount_returns getSubaccounts_returns nf nf')
qed

theorem collaborator_failures_degrade_witness:
  "failed (Response 500 ''Internal Server Error'' (Some ''boom'') None
            :: ParentSubaccountResponse fetch_result) \<and>
   failed (NetworkFailure :: AssetPositionsResponse fetch_result) \<and>
   failed (Response 503 ''Service Unavailable'' None None
            :: (string \<times> AssetInfo) list fetch_result) \<and>
   failed (NetworkFailure :: (string \<times> AssetPrice) list fetch_result) \<and>
   getSubaccounts ''dydx1abc''
     (Response 500 ''Internal Server Error'' (Some ''boom'') None) = Inr \<lparr>subaccounts = []\<rparr> \<and>
   getAllSubaccountAssets ''dydx1abc'' 0
     (Response 500 ''Internal Server Error'' (Some ''boom'') None) = Inr [] \<and>
   getSubaccountAssetPositions ''dydx1abc'' 0 NetworkFailure = Inr \<lparr>positions = []\<rparr> \<and>
   getAssetInfo (Some [''USDC''])
     (Response 503 ''Service Unavailable'' None None) = Inr [] \<and>
   getAssetPrices (Some [''USDC'']) NetworkFailure = Inr []"
proof -
  have h: "failed (Response 500 ''Internal Server Error'' (Some ''boom'') None
              :: ParentSubaccountResponse fetch_result) \<and>
     failed (NetworkFailure :: AssetPositionsResponse fetch_result) \<and>
     failed (Response 503 ''Service Unavailable'' None None
              :: (string \<times> AssetInfo) list fetch_result) \<and>
     failed (NetworkFailure :: (string \<times> AssetPrice) list fetch_result)"
    by (simp add: failed_def response_ok_def)
  show ?thesis
    using h collaborator_failures_degrade [of
        "Response 500 ''Internal Server Error'' (Some ''boom'') None" "''dydx1abc''" 0
        NetworkFailure "Response 503 ''Service Unavailable'' None None" "Some [''USDC'']"
        NetworkFailure]
    by simp
qed

text \<open>
  Claim C9 does not hold when the body of a 2xx response cannot be read, because the
  connection is lost while it arrives or because it is not JSON. \<open>getAssetInfo\<close>,
  \<open>getAssetPrices\<close> and \<open>getSubaccountAssetPositions\<close> end their \<open>try\<close> block with
  \<open>return response.json()\<close>, not awaited, so the rejection goes past the handler to the
  caller. \<open>getParentSubaccount\<close> awaits the same promise and returns its empty result.
\<close>

theorem unawaited_body_reaches_caller:
  "getAssetInfo (Some [''USDC'']) (Response 200 ''OK'' None None) = Inl BodyRejected \<and>
   getAssetPrices (Some [''USDC'']) (Response 200 ''OK'' None None) = Inl BodyRejected \<and>
   getSubaccountAssetPositions ''dydx1abc'' 0 (Response 200 ''OK'' None None) = Inl BodyRejected \<and>
   getParentSubaccount ''dydx1abc'' 0 (Response 200 ''OK'' None None) =
     Inr (emptyParentSubaccount ''dydx1abc'' 0)"
  by (simp add: getAssetInfo_def getAssetPrices_def getSubaccountAssetPositions_def
      getParentSubaccount_def try_catch_def response_ok_def)

section \<open>Properties of the Connect component\<close>

lemma logged_simps:
  "state (logged c a) = state a" "error (logged c a) = error a" "store (logged c a) = store a"
  "live (world (logged c a)) = live (world a)" "connected (world (logged c a)) = connected (world a)"
  "next_id (world (logged c a)) = next_id (world a)"
  "calls (world (logged c a)) = calls (world a) @ [c]"
  by (simp_all add: logged_def)

lemma fail_simps:
  "state (fail a) = Initial" "error (fail a) = True" "store (fail a) = store a"
  "world (fail a) = world a"
  by (simp_all add: fail_def)

lemma new_client_simps:
  "state (new_client addr a) = state a" "error (new_client addr a) = error a"
  "subsNewBlock (store (new_client addr a)) = subsNewBlock (store a)"
  "subsTxEvent (store (new_client addr a)) = subsTxEvent (store a)"
  "connectState (store (new_client addr a)) = True"
  "tmClient (store (new_client addr a)) = Some (next_id (world a))"
  "live (world (new_client addr a)) = live (world a)"
  "next_id (world (new_client addr a)) = Suc (next_id (world a))"
  "connected (world (new_client addr a)) = connected (world a) @ [next_id (world a)]"
  "calls (world (new_client addr a)) = calls (world a) @ [Connect addr]"
  by (simp_all add: new_client_def)

lemma new_subscription_simps:
  "state (new_subscription s c a) = state a" "error (new_subscription s c a) = error a"
  "store (new_subscription s c a) = store a"
  "live (world (new_subscription s c a)) = live (world a) @ [(next_id (world a), s)]"
  "next_id (world (new_subscription s c a)) = Suc (next_id (world a))"
  "connected (world (new_subscription s c a)) = connected (world a)"
  "calls (world (new_subscription s c a)) = calls (world a) @ [Subscribe s c]"
  by (simp_all add: new_subscription_def)

lemmas flow_defs = connectClient_def connectClient_try_def and_then_def begin_connect_def
  checkAddress_def validate_def cleanupNewBlock_def cleanupTx_def cleanupClient_def resetData_def
  establish_def

lemmas update_simps = logged_simps fail_simps new_client_simps new_subscription_simps


lemma failure_outcome:
  "\<not> success_path env addr a \<Longrightarrow>
     state (connectClient env addr a) = Initial \<and> error (connectClient env addr a) \<and>
     (subsNewBlock (store (connectClient env addr a)) = None \<or>
      subsNewBlock (store (connectClient env addr a)) = subsNewBlock (store a)) \<and>
     (subsTxEvent (store (connectClient env addr a)) = None \<or>
      subsTxEvent (store (connectClient env addr a)) = subsTxEvent (store a))"
  by (auto simp add: success_path_def flow_defs update_simps Let_def split: outcome.splits option.splits)

lemma success_outcome:
  "success_path env addr a \<Longrightarrow>
     state (connectClient env addr a) = Success \<and> \<not> error (connectClient env addr a) \<and>
     connectState (store (connectClient env addr a)) \<and>
     tmClient (store (connectClient env addr a)) = Some (next_id (world a)) \<and>
     subsNewBlock (store (connectClient env addr a)) = Some (next_id (world a) + 1) \<and>
     subsTxEvent (store (connectClient env addr a)) = Some (next_id (world a) + 2)"
  by (auto simp add: success_path_def flow_defs update_simps Let_def split: outcome.splits option.splits)

lemma success_calls:
  "success_path env addr a \<Longrightarrow>
     calls (world (connectClient env addr a)) =
       calls (world a) @ teardown_calls a @
       [Connect addr, Subscribe NewBlock (next_id (world a)), Subscribe TxEvent (next_id (world a))]"
  by (auto simp add: success_path_def teardown_calls_def flow_defs update_simps Let_def split: outcome.splits option.splits)

lemma success_live:
  "success_path env addr a \<Longrightarrow>
     live (world (connectClient env addr a)) =
       filter (\<lambda>(k, s). Some k \<noteq> subsNewBlock (store a) \<and> Some k \<noteq> subsTxEvent (store a)) (live (world a)) @
       [(next_id (world a) + 1, NewBlock), (next_id (world a) + 2, TxEvent)]"
  by (auto simp add: success_path_def flow_defs update_simps Let_def split: outcome.splits option.splits intro: filter_cong)

lemma success_connected:
  "success_path env addr a \<Longrightarrow>
     connected (world (connectClient env addr a)) =
       (case tmClient (store a) of
          None \<Rightarrow> connected (world a)
        | Some c \<Rightarrow>
            (case disconnect env of
               Throws \<Rightarrow> connected (world a)
             | Returns _ \<Rightarrow> filter (\<lambda>k. k \<noteq> c) (connected (world a)))) @
       [next_id (world a)]"
  by (auto simp add: success_path_def flow_defs update_simps Let_def split: outcome.splits option.splits)

lemma early_failure_untouched:
  "addr = [] \<or> validateConnection env \<noteq> Returns True \<Longrightarrow>
     store (connectClient env addr a) = store a \<and> world (connectClient env addr a) = world a"
  by (auto simp add: connectClient_def connectClient_try_def and_then_def begin_connect_def
      checkAddress_def validate_def fail_simps split: outcome.splits)

lemma success_iff: "state (connectClient env addr a) = Success \<longleftrightarrow> success_path env addr a"
proof
  assume s: "state (connectClient env addr a) = Success"
  show "success_path env addr a"
  proof (rule ccontr)
    assume "\<not> success_path env addr a"
    then have "state (connectClient env addr a) = Initial"
      by (simp add: failure_outcome)
    with s show False by simp
  qed
next
  assume "success_path env addr a"
  then show "state (connectClient env addr a) = Success"
    by (simp add: success_outcome)
qed

lemma held_filter:
  assumes "set (live (world a)) \<subseteq> set (held a)"
  shows "filter (\<lambda>(k, s). Some k \<noteq> subsNewBlock (store a) \<and> Some k \<noteq> subsTxEvent (store a))
           (live (world a)) = []"
proof -
  have "\<And>k s. (k, s) \<in> set (held a) \<Longrightarrow>
          Some k = subsNewBlock (store a) \<or> Some k = subsTxEvent (store a)"
    by (auto simp: held_def split: option.splits)
  with assms show ?thesis
    by (auto simp: filter_empty_conv)
qed

text \<open>
  Claim C3, as stated, fails. On a first connection whose \<open>subscribeNewBlock\<close> throws,
  the run ends with the error flag set, and the store keeps the connected flag and the
  new client with no subscription: the \<open>catch\<close> block does not undo the dispatches.
\<close>

theorem connect_half_connected_counterexample:
  "error (connectClient (all_fine\<lparr>subscribeNewBlock := Throws\<rparr>) ''https://rpc'' fresh_app) \<and>
   state (connectClient (all_fine\<lparr>subscribeNewBlock := Throws\<rparr>) ''https://rpc'' fresh_app) = Initial \<and>
   connectState (store (connectClient (all_fine\<lparr>subscribeNewBlock := Throws\<rparr>) ''https://rpc'' fresh_app)) \<and>
   tmClient (store (connectClient (all_fine\<lparr>subscribeNewBlock := Throws\<rparr>) ''https://rpc'' fresh_app)) = Some 0 \<and>
   subsNewBlock (store (connectClient (all_fine\<lparr>subscribeNewBlock := Throws\<rparr>) ''https://rpc'' fresh_app)) = None \<and>
   subsTxEvent (store (connectClient (all_fine\<lparr>subscribeNewBlock := Throws\<rparr>) ''https://rpc'' fresh_app)) = None"
  by code_simp

text \<open>
  Claim C3, amended. Every run that is not the successful one (empty address, failed
  validation, failed client creation, or an exception in the validation, the clean-up,
  the connection or the subscription set-up) ends with the error flag set and the state
  \<open>'initial'\<close>, and stores no new subscription handle: each subscription cell is empty
  or holds its previous handle. The successful run ends with no error, the state
  \<open>'success'\<close>, the connected flag, the client and both handles. A failure at the
  address test or at the validation leaves the store and the RPC side untouched.
\<close>

theorem connect_failure_flag:
  "(\<not> success_path env addr a \<longrightarrow>
      state (connectClient env addr a) = Initial \<and> error (connectClient env addr a) \<and>
      (subsNewBlock (store (connectClient env addr a)) = None \<or>
       subsNewBlock (store (connectClient env addr a)) = subsNewBlock (store a)) \<and>
      (subsTxEvent (store (connectClient env addr a)) = None \<or>
       subsTxEvent (store (connectClient env addr a)) = subsTxEvent (store a)))
   \<and> (success_path env' addr' a' \<longrightarrow>
      state (connectClient env' addr' a') = Success \<and> \<not> error (connectClient env' addr' a') \<and>
      connectState (store (connectClient env' addr' a')) \<and>
      tmClient (store (connectClient env' addr' a')) \<noteq> None \<and>
      subsNewBlock (store (connectClient env' addr' a')) \<noteq> None \<and>
      subsTxEvent (store (connectClient env' addr' a')) \<noteq> None)
   \<and> (addr'' = [] \<or> validateConnection env'' \<noteq> Returns True \<longrightarrow>
      store (connectClient env'' addr'' a'') = store a'' \<and>
      world (connectClient env'' addr'' a'') = world a'')"
proof -
  have f: "\<not> success_path env addr a \<longrightarrow>
      state (connectClient env addr a) = Initial \<and> error (connectClient env addr a) \<and>
      (subsNewBlock (store (connectClient env addr a)) = None \<or>
       subsNewBlock (store (connectClient env addr a)) = subsNewBlock (store a)) \<and>
      (subsTxEvent (store (connectClient env addr a)) = None \<or>
       subsTxEvent (store (connectClient env addr a)) = subsTxEvent (store a))"
    using failure_outcome [of env addr a] by blast
  have s: "success_path env' addr' a' \<longrightarrow>
      state (connectClient env' addr' a') = Success \<and> \<not> error (connectClient env' addr' a') \<and>
      connectState (store (connectClient env' addr' a')) \<and>
      tmClient (store (connectClient env' addr' a')) \<noteq> None \<and>
      subsNewBlock (store (connectClient env' addr' a')) \<noteq> None \<and>
      subsTxEvent (store (connectClient env' addr' a')) \<noteq> None"
    using success_outcome [of env' addr' a'] by simp
  have e: "addr'' = [] \<or> validateConnection env'' \<noteq> Returns True \<longrightarrow>
      store (connectClient env'' addr'' a'') = store a'' \<and>
      world (connectClient env'' addr'' a'') = world a''"
    using early_failure_untouched [of addr'' env'' a''] by blast
  show ?thesis by (rule conjI [OF f conjI [OF s e]])
qed

theorem connect_failure_flag_witness:
  "\<not> success_path (all_fine\<lparr>connectWebsocketClient := Returns False\<rparr>) ''https://rpc2''
        (connectClient all_fine ''https://rpc'' fresh_app) \<and>
   success_path all_fine ''https://rpc'' fresh_app \<and>
   ([] = ([] :: string) \<or> validateConnection all_fine \<noteq> Returns True) \<and>
   error (connectClient (all_fine\<lparr>connectWebsocketClient := Returns False\<rparr>) ''https://rpc2''
        (connectClient all_fine ''https://rpc'' fresh_app)) \<and>
   state (connectClient all_fine ''https://rpc'' fresh_app) = Success \<and>
   store (connectClient all_fine [] (connectClient all_fine ''https://rpc'' fresh_app)) =
     store (connectClient all_fine ''https://rpc'' fresh_app)"
proof -
  have h: "\<not> success_path (all_fine\<lparr>connectWebsocketClient := Returns False\<rparr>) ''https://rpc2''
        (connectClient all_fine ''https://rpc'' fresh_app) \<and>
     success_path all_fine ''https://rpc'' fresh_app"
    by (simp add: success_path_def all_fine_def)
  show ?thesis
    using h connect_failure_flag [where env = "all_fine\<lparr>connectWebsocketClient := Returns False\<rparr>"
        and addr = "''https://rpc2''" and a = "connectClient all_fine ''https://rpc'' fresh_app"
        and env' = all_fine and addr' = "''https://rpc''" and a' = fresh_app
        and addr'' = "[]" and env'' = all_fine
        and a'' = "connectClient all_fine ''https://rpc'' fresh_app"]
    by simp
qed

text \<open>
  The order of the calls of a successful run. A successful run makes its calls in this
  order: \<open>unsubscribe\<close> on the handles
  that the store held, \<open>disconnect\<close> on the previous client, then the new connection and
  the two subscriptions; the store then holds the new client and the two new handles.
  When the active subscriptions before the run are those that the store holds, the run
  leaves exactly one active new-block subscription and exactly one active transaction
  subscription, both held by the store, and a previous client whose \<open>disconnect\<close>
  returned is no longer connected.
\<close>

theorem reconnect_single_subscription:
  assumes "state (connectClient env addr a) = Success"
  shows "calls (world (connectClient env addr a)) =
       calls (world a) @ teardown_calls a @
       [Connect addr, Subscribe NewBlock (next_id (world a)),
        Subscribe TxEvent (next_id (world a))]
   \<and> tmClient (store (connectClient env addr a)) = Some (next_id (world a))
   \<and> subsNewBlock (store (connectClient env addr a)) = Some (next_id (world a) + 1)
   \<and> subsTxEvent (store (connectClient env addr a)) = Some (next_id (world a) + 2)
   \<and> (set (live (world a)) \<subseteq> set (held a) \<longrightarrow>
        active NewBlock (connectClient env addr a) = [next_id (world a) + 1] \<and>
        active TxEvent (connectClient env addr a) = [next_id (world a) + 2] \<and>
        set (live (world (connectClient env addr a))) \<subseteq> set (held (connectClient env addr a)))
   \<and> (\<forall>c. tmClient (store a) = Some c \<and> c < next_id (world a) \<and> disconnect env = Returns () \<longrightarrow>
        c \<notin> set (connected (world (connectClient env addr a))))"
proof -
  from assms have p: "success_path env addr a" by (simp add: success_iff)
  note o = success_outcome [OF p]
  have l: "set (live (world a)) \<subseteq> set (held a) \<longrightarrow>
        active NewBlock (connectClient env addr a) = [next_id (world a) + 1] \<and>
        active TxEvent (connectClient env addr a) = [next_id (world a) + 2] \<and>
        set (live (world (connectClient env addr a))) \<subseteq> set (held (connectClient env addr a))"
  proof
    assume h: "set (live (world a)) \<subseteq> set (held a)"
    have "live (world (connectClient env addr a)) =
        [(next_id (world a) + 1, NewBlock), (next_id (world a) + 2, TxEvent)]"
      by (simp add: success_live [OF p] held_filter [OF h])
    then show "active NewBlock (connectClient env addr a) = [next_id (world a) + 1] \<and>
        active TxEvent (connectClient env addr a) = [next_id (world a) + 2] \<and>
        set (live (world (connectClient env addr a))) \<subseteq> set (held (connectClient env addr a))"
      using o by (simp add: active_def held_def)
  qed
  have d: "\<forall>c. tmClient (store a) = Some c \<and> c < next_id (world a) \<and> disconnect env = Returns () \<longrightarrow>
        c \<notin> set (connected (world (connectClient env addr a)))"
    by (auto simp: success_connected [OF p])
  show ?thesis
    using success_calls [OF p] o l d by simp
qed

theorem reconnect_single_subscription_witness:
  "state (connectClient all_fine ''https://rpc2''
      (connectClient all_fine ''https://rpc'' fresh_app)) = Success \<and>
   set (live (world (connectClient all_fine ''https://rpc'' fresh_app))) \<subseteq>
     set (held (connectClient all_fine ''https://rpc'' fresh_app)) \<and>
   tmClient (store (connectClient all_fine ''https://rpc'' fresh_app)) = Some 0 \<and>
   0 < next_id (world (connectClient all_fine ''https://rpc'' fresh_app)) \<and>
   disconnect all_fine = Returns () \<and>
   active NewBlock (connectClient all_fine ''https://rpc2''
      (connectClient all_fine ''https://rpc'' fresh_app)) = [4] \<and>
   active TxEvent (connectClient all_fine ''https://rpc2''
      (connectClient all_fine ''https://rpc'' fresh_app)) = [5] \<and>
   0 \<notin> set (connected (world (connectClient all_fine ''https://rpc2''
      (connectClient all_fine ''https://rpc'' fresh_app))))"
proof -
  have h: "state (connectClient all_fine ''https://rpc2''
        (connectClient all_fine ''https://rpc'' fresh_app)) = Success"
    by code_simp
  have g: "set (live (world (connectClient all_fine ''https://rpc'' fresh_app))) \<subseteq>
       set (held (connectClient all_fine ''https://rpc'' fresh_app)) \<and>
     tmClient (store (connectClient all_fine ''https://rpc'' fresh_app)) = Some 0 \<and>
     next_id (world (connectClient all_fine ''https://rpc'' fresh_app)) = 3 \<and>
     disconnect all_fine = Returns ()"
    by code_simp
  show ?thesis
    using h g reconnect_single_subscription [OF h] by simp
qed

text \<open>
  The subscriptions that are active stay among those that the store holds in every run,
  successful or not, in which \<open>subscribeTx\<close> does not throw.
\<close>

lemma live_subset_held_kept:
  assumes "set (live (world a)) \<subseteq> set (held a)" and "subscribeTx env = Returns ()"
  shows "set (live (world (connectClient env addr a))) \<subseteq> set (held (connectClient env addr a))"
  using assms
  by (auto simp add: held_def flow_defs update_simps Let_def
      split: outcome.splits option.splits if_splits)


section \<open>Properties of the amount arithmetic\<close>

text \<open>
  Claim C5 does not hold for the total of available and delegated amounts: the sum goes
  through \<open>parseFloat\<close> and the addition of doubles. Two amounts of
  \<open>1000000000000000001\<close> have the exact total \<open>2000000000000000002\<close>; the page computes
  \<open>2000000000000000000\<close>.
\<close>

theorem total_amount_float:
  "parseDecimal ''1000000000000000001'' = Some 1000000000000000001 \<and>
   totalAmountNumber \<lparr>denom = ''adydx'', amount = ''1000000000000000001''\<rparr>
       \<lparr>denom = ''adydx'', amount = ''1000000000000000001''\<rparr> =
     Some (Finite 2000000000000000000) \<and>
   (1000000000000000001 :: int) + 1000000000000000001 = 2000000000000000002"
  by code_simp

lemma shift_example: "shiftDecimal ''1500000'' 6 = ''1.5''"
  by code_simp

text \<open>
  Claim C6. For the raw amount \<open>1500000\<close> of \<open>uusdc\<close>, when the metadata gives no
  exponent, \<open>formatBalance\<close> with the conversion of the spec yields the converted amount
  \<open>1.5\<close> and the base denom \<open>usdc\<close>, and the flag \<open>isConverted\<close> is set.
\<close>

theorem micro_prefix_heuristic:
  assumes "fst (balanceExponent st \<lparr>denom = ''uusdc'', amount = ''1500000''\<rparr>) = None"
  shows "convertedAmount (fst (formatBalance (spec_utils attoExponent fa fd) st
             \<lparr>denom = ''uusdc'', amount = ''1500000''\<rparr>)) = ''1.5'' \<and>
         baseDenom (fst (formatBalance (spec_utils attoExponent fa fd) st
             \<lparr>denom = ''uusdc'', amount = ''1500000''\<rparr>)) = ''usdc'' \<and>
         isConverted (fst (formatBalance (spec_utils attoExponent fa fd) st
             \<lparr>denom = ''uusdc'', amount = ''1500000''\<rparr>))"
proof -
  obtain st' where b: "balanceExponent st \<lparr>denom = ''uusdc'', amount = ''1500000''\<rparr> = (None, st')"
    using assms by (cases "balanceExponent st \<lparr>denom = ''uusdc'', amount = ''1500000''\<rparr>") simp
  have g: "spec_getConvertedAmount attoExponent ''1500000'' ''uusdc'' None = (''1.5'', ''usdc'')"
    by (simp add: spec_getConvertedAmount_def shift_example)
  show ?thesis
    by (simp add: formatBalance_def b spec_utils_def g)
qed

theorem micro_prefix_heuristic_witness:
  "fst (balanceExponent \<lparr>assetInfoMap = [], denomExponentMap = []\<rparr>
          \<lparr>denom = ''uusdc'', amount = ''1500000''\<rparr>) = None \<and>
   convertedAmount (fst (formatBalance (spec_utils 18 (\<lambda>a. a) (\<lambda>d. d))
       \<lparr>assetInfoMap = [], denomExponentMap = []\<rparr>
       \<lparr>denom = ''uusdc'', amount = ''1500000''\<rparr>)) = ''1.5'' \<and>
   baseDenom (fst (formatBalance (spec_utils 18 (\<lambda>a. a) (\<lambda>d. d))
       \<lparr>assetInfoMap = [], denomExponentMap = []\<rparr>
       \<lparr>denom = ''uusdc'', amount = ''1500000''\<rparr>)) = ''usdc''"
proof -
  have h: "fst (balanceExponent \<lparr>assetInfoMap = [], denomExponentMap = []\<rparr>
          \<lparr>denom = ''uusdc'', amount = ''1500000''\<rparr>) = None"
    by (simp add: balanceExponent_def)
  show ?thesis
    using h micro_prefix_heuristic [OF h, of 18 "\<lambda>a. a" "\<lambda>d. d"] by simp
qed

end
